theory Spec2Isabelle
  imports Complex_Main "HOL-Library.Char_ord" "HOL-Library.List_Lexorder"
    "HOL-Library.Product_Lexorder"
begin

section \<open>Values of the attendance sheet\<close>

text \<open>
  The program is \<^verbatim>\<open>salary.py\<close>: \<^verbatim>\<open>parse_hours\<close> turns one cell into decimal hours and
  \<^verbatim>\<open>calculate_salary\<close> turns an attendance table into a daily breakdown, monthly
  totals and two wage rates.

  Python exceptions are values of \<open>exn\<close>; a computation that may raise returns
  \<open>exn + 'a\<close> with \<open>Inl\<close> the exception.

  A Python float is \<open>pyfloat\<close>: a finite value carried as an exact real number, or one
  of the three non-finite values. Binary rounding of finite values, and the overflow of
  float arithmetic to infinity, are not modelled; the non-finite values are, since
  \<^verbatim>\<open>float("nan")\<close> and \<^verbatim>\<open>float("inf")\<close> are results \<^verbatim>\<open>parse_hours\<close> can return.
\<close>

datatype exn =
  ValueError | TypeError | KeyError | AttributeError | OverflowError | ZeroDivisionError

datatype pyfloat = Fin real | PInf | NInf | NaN

text \<open>
  A Python \<^verbatim>\<open>int\<close> has no bound, a float has. Converting an int to a float rounds to
  the nearest float and raises \<^verbatim>\<open>OverflowError\<close> when the rounded value is beyond the
  largest float \<open>2\<^sup>1\<^sup>0\<^sup>2\<^sup>4 - 2\<^sup>9\<^sup>7\<^sup>1\<close>, which is so from \<open>2\<^sup>1\<^sup>0\<^sup>2\<^sup>4 - 2\<^sup>9\<^sup>7\<^sup>0\<close> on. The true
  division of two ints rounds the exact quotient in the same way and raises the same
  error. Within the range the model keeps the exact value.
\<close>

definition float_limit :: real where
  "float_limit = 2 ^ 1024 - 2 ^ 970"

definition in_float_range :: "real \<Rightarrow> bool" where
  "in_float_range x = (\<bar>x\<bar> < float_limit)"

text \<open>\<^verbatim>\<open>float(i)\<close> for an int, also where Python converts an int operand of a float.\<close>

definition int_to_float :: "int \<Rightarrow> exn + real" where
  "int_to_float i =
     (if in_float_range (real_of_int i) then Inr (real_of_int i) else Inl OverflowError)"

text \<open>\<^verbatim>\<open>i / j\<close> for two ints.\<close>

definition int_truediv :: "int \<Rightarrow> int \<Rightarrow> exn + real" where
  "int_truediv i j =
     (if j = 0 then Inl ZeroDivisionError
      else if in_float_range (real_of_int i / real_of_int j)
        then Inr (real_of_int i / real_of_int j)
      else Inl OverflowError)"

text \<open>
  A cell of the table. \<open>PyNaN\<close> is a missing cell (\<^verbatim>\<open>None\<close> or the float NaN that
  \<^verbatim>\<open>read_excel\<close> puts there), \<open>PyNaT\<close> is pandas' missing timestamp, \<open>PyNum\<close> an
  \<^verbatim>\<open>int\<close> or finite \<^verbatim>\<open>float\<close>, given by its value (Python compares and hashes the two
  by value, so one constructor serves both; a value that is not \<open>in_float_range\<close> can
  only be an \<^verbatim>\<open>int\<close>, every float being within the range). \<open>PyStr\<close> is a string of
  characters with code points 0 to 255. A timestamp is its proleptic Gregorian day
  number (\<^verbatim>\<open>toordinal()\<close>) and its time of day in seconds; a \<^verbatim>\<open>datetime.date\<close> is the
  day number alone, a \<^verbatim>\<open>datetime.time\<close> the time of day alone.
\<close>

datatype pyval =
    PyNaN
  | PyNaT
  | PyNum real
  | PyStr string
  | PyTimestamp nat nat
  | PyDate nat
  | PyTime nat

fun pd_isna :: "pyval \<Rightarrow> bool" where
  "pd_isna PyNaN = True"
| "pd_isna PyNaT = True"
| "pd_isna _ = False"

section \<open>The string functions \<^verbatim>\<open>parse_hours\<close> calls\<close>

text \<open>
  \<^verbatim>\<open>str.strip()\<close> removes white space at both ends: the characters that
  \<^verbatim>\<open>str.isspace\<close> accepts, which up to code point 255 are 9 to 13, 28 to 32, 133 and
  160.
\<close>

definition isspace :: "char \<Rightarrow> bool" where
  "isspace c =
     (let n = (of_char c :: nat)
      in (9 \<le> n \<and> n \<le> 13) \<or> (28 \<le> n \<and> n \<le> 32) \<or> n = 133 \<or> n = 160)"

definition strip :: "string \<Rightarrow> string" where
  "strip s = rev (dropWhile isspace (rev (dropWhile isspace s)))"

text \<open>
  \<^verbatim>\<open>int(s)\<close> and \<^verbatim>\<open>float(s)\<close> skip white space at both ends too, but a smaller set: the
  characters 9 to 13 and 32 of C, and 133 and 160, which CPython turns into a space
  first. The characters 28 to 31 are no white space for them and make the text
  invalid.
\<close>

definition isspace_number :: "char \<Rightarrow> bool" where
  "isspace_number c =
     (let n = (of_char c :: nat) in (9 \<le> n \<and> n \<le> 13) \<or> n = 32 \<or> n = 133 \<or> n = 160)"

definition strip_number :: "string \<Rightarrow> string" where
  "strip_number s = rev (dropWhile isspace_number (rev (dropWhile isspace_number s)))"

text \<open>\<^verbatim>\<open>value.split(":")\<close>: the pieces between the colons, one more than there are colons.\<close>

fun split_colon :: "string \<Rightarrow> string list" where
  "split_colon [] = [[]]"
| "split_colon (c # cs) =
     (if c = CHR '':'' then [] # split_colon cs
      else (case split_colon cs of
              [] \<Rightarrow> [[c]]
            | x # xs \<Rightarrow> (c # x) # xs))"

definition isdigit :: "char \<Rightarrow> bool" where
  "isdigit c = (let n = (of_char c :: nat) in 48 \<le> n \<and> n \<le> 57)"

definition digit_of :: "char \<Rightarrow> nat" where
  "digit_of c = of_char c - 48"

text \<open>
  A digit part of Python's numeric literals in strings: decimal digits, with single
  underscores allowed between two digits. \<open>digits prev acc s\<close> reads \<open>s\<close> with \<open>acc\<close> the
  value read so far and \<open>prev\<close> telling whether the character before was a digit.
\<close>

fun digits :: "bool \<Rightarrow> nat \<Rightarrow> string \<Rightarrow> nat option" where
  "digits prev acc [] = (if prev then Some acc else None)"
| "digits prev acc (c # cs) =
     (if isdigit c then digits True (acc * 10 + digit_of c) cs
      else if c = CHR ''_'' \<and> prev then digits False acc cs
      else None)"

definition ndigits :: "string \<Rightarrow> nat" where
  "ndigits s = length (filter isdigit s)"

text \<open>
  \<^verbatim>\<open>int(s)\<close> on a string: white space skipped, an optional sign, a digit part. CPython
  3.11 and later refuse a digit part of more than 4300 digits (the default of
  \<^verbatim>\<open>sys.set_int_max_str_digits\<close>) with \<^verbatim>\<open>ValueError\<close>.
\<close>

definition max_str_digits :: nat where
  "max_str_digits = 4300"

definition int_digits :: "string \<Rightarrow> nat option" where
  "int_digits s =
     (case digits False 0 s of
        None \<Rightarrow> None
      | Some n \<Rightarrow> if ndigits s > max_str_digits then None else Some n)"

definition py_int :: "string \<Rightarrow> exn + int" where
  "py_int s =
     (case strip_number s of
        [] \<Rightarrow> Inl ValueError
      | c # r \<Rightarrow>
          if c = CHR ''-'' then
            (case int_digits r of None \<Rightarrow> Inl ValueError | Some n \<Rightarrow> Inr (- int n))
          else if c = CHR ''+'' then
            (case int_digits r of None \<Rightarrow> Inl ValueError | Some n \<Rightarrow> Inr (int n))
          else
            (case int_digits (c # r) of None \<Rightarrow> Inl ValueError | Some n \<Rightarrow> Inr (int n)))"

text \<open>
  \<^verbatim>\<open>float(s)\<close> on a string: white space skipped, an optional sign, then \<^verbatim>\<open>inf\<close>,
  \<^verbatim>\<open>infinity\<close> or \<^verbatim>\<open>nan\<close> in any case, or a decimal number: digit parts around an
  optional point (one of the two may be missing), and an optional exponent. A decimal
  number too large for a float gives infinity in Python and raises nothing; the model
  keeps its value.
\<close>

definition lower :: "char \<Rightarrow> char" where
  "lower c = (let n = (of_char c :: nat) in if 65 \<le> n \<and> n \<le> 90 then char_of (n + 32) else c)"

fun split_at :: "(char \<Rightarrow> bool) \<Rightarrow> string \<Rightarrow> string \<times> string option" where
  "split_at P [] = ([], None)"
| "split_at P (c # cs) =
     (if P c then ([], Some cs)
      else (case split_at P cs of (a, b) \<Rightarrow> (c # a, b)))"

definition mantissa :: "string \<Rightarrow> real option" where
  "mantissa s =
     (case split_at (\<lambda>c. c = CHR ''.'') s of
        (ip, None) \<Rightarrow> map_option real (digits False 0 ip)
      | (ip, Some fp) \<Rightarrow>
          if ip = [] then
            (case digits False 0 fp of
               None \<Rightarrow> None
             | Some f \<Rightarrow> Some (real f / 10 ^ ndigits fp))
          else
            (case digits False 0 ip of
               None \<Rightarrow> None
             | Some i \<Rightarrow>
                 if fp = [] then Some (real i)
                 else (case digits False 0 fp of
                         None \<Rightarrow> None
                       | Some f \<Rightarrow> Some (real i + real f / 10 ^ ndigits fp))))"

definition exponent :: "string \<Rightarrow> int option" where
  "exponent s =
     (case s of
        [] \<Rightarrow> None
      | c # r \<Rightarrow>
          if c = CHR ''-'' then map_option (\<lambda>n. - int n) (digits False 0 r)
          else if c = CHR ''+'' then map_option int (digits False 0 r)
          else map_option int (digits False 0 (c # r)))"

definition scale10 :: "real \<Rightarrow> int \<Rightarrow> real" where
  "scale10 x e = (if 0 \<le> e then x * 10 ^ nat e else x / 10 ^ nat (- e))"

definition unsigned_float :: "string \<Rightarrow> pyfloat option" where
  "unsigned_float s =
     (let l = map lower s in
      if l = ''inf'' \<or> l = ''infinity'' then Some PInf
      else if l = ''nan'' then Some NaN
      else (case split_at (\<lambda>c. c = CHR ''e'' \<or> c = CHR ''E'') s of
              (m, None) \<Rightarrow> map_option Fin (mantissa m)
            | (m, Some e) \<Rightarrow>
                (case mantissa m of
                   None \<Rightarrow> None
                 | Some x \<Rightarrow>
                     (case exponent e of
                        None \<Rightarrow> None
                      | Some k \<Rightarrow> Some (Fin (scale10 x k))))))"

fun fneg :: "pyfloat \<Rightarrow> pyfloat" where
  "fneg (Fin x) = Fin (- x)"
| "fneg PInf = NInf"
| "fneg NInf = PInf"
| "fneg NaN = NaN"

definition py_float :: "string \<Rightarrow> exn + pyfloat" where
  "py_float s =
     (case strip_number s of
        [] \<Rightarrow> Inl ValueError
      | c # r \<Rightarrow>
          if c = CHR ''-'' then
            (case unsigned_float r of None \<Rightarrow> Inl ValueError | Some x \<Rightarrow> Inr (fneg x))
          else if c = CHR ''+'' then
            (case unsigned_float r of None \<Rightarrow> Inl ValueError | Some x \<Rightarrow> Inr x)
          else
            (case unsigned_float (c # r) of None \<Rightarrow> Inl ValueError | Some x \<Rightarrow> Inr x))"

section \<open>\<^verbatim>\<open>parse_hours\<close>\<close>

text \<open>
  The body of the \<^verbatim>\<open>try\<close>: \<^verbatim>\<open>str(value).strip()\<close>, then the \<^verbatim>\<open>HH:MM\<close> branch when the
  text has a colon (the unpacking \<^verbatim>\<open>h, m = value.split(":")\<close> raises unless there are
  exactly two pieces), and \<^verbatim>\<open>float(value)\<close> otherwise. In \<^verbatim>\<open>int(h) + int(m) / 60\<close> the
  division is a true division of two ints and the addition converts \<^verbatim>\<open>int(h)\<close> to a
  float; either raises \<^verbatim>\<open>OverflowError\<close> beyond the range of float.

  Numbers and missing cells never reach the \<^verbatim>\<open>try\<close>. Of the remaining values only a
  string has a text that can parse: \<^verbatim>\<open>str\<close> of a timestamp or of a time of day holds two
  colons (\<^verbatim>\<open>08:30:00\<close>), so the unpacking raises, and \<^verbatim>\<open>str\<close> of a date
  (\<^verbatim>\<open>2024-01-05\<close>) has no colon and is no float literal.
\<close>

definition parse_hours_try :: "pyval \<Rightarrow> exn + pyfloat" where
  "parse_hours_try v =
     (case v of
        PyStr s \<Rightarrow>
          (let value = strip s in
           if CHR '':'' \<in> set value then
             (case split_colon value of
                [h, m] \<Rightarrow>
                  (case py_int h of
                     Inl e \<Rightarrow> Inl e
                   | Inr hh \<Rightarrow>
                       (case py_int m of
                          Inl e \<Rightarrow> Inl e
                        | Inr mm \<Rightarrow>
                            (case int_truediv mm 60 of
                               Inl e \<Rightarrow> Inl e
                             | Inr q \<Rightarrow>
                                 (case int_to_float hh of
                                    Inl e \<Rightarrow> Inl e
                                  | Inr x \<Rightarrow> Inr (Fin (x + q))))))
              | _ \<Rightarrow> Inl ValueError)
           else py_float value)
      | _ \<Rightarrow> Inl ValueError)"

text \<open>
  \<^verbatim>\<open>parse_hours\<close> itself: a missing value is \<open>0.0\<close>, a number is returned as a float,
  and the bare \<^verbatim>\<open>except\<close> turns every exception of the \<^verbatim>\<open>try\<close> body into \<open>0.0\<close>.
  \<^verbatim>\<open>return float(value)\<close> stands before the \<^verbatim>\<open>try\<close>, so the \<^verbatim>\<open>OverflowError\<close> of an
  int beyond the range of float leaves the function.
\<close>

definition parse_hours :: "pyval \<Rightarrow> exn + pyfloat" where
  "parse_hours v =
     (if pd_isna v then Inr (Fin 0)
      else (case v of
              PyNum x \<Rightarrow> (if in_float_range x then Inr (Fin x) else Inl OverflowError)
            | _ \<Rightarrow> (case parse_hours_try v of
                      Inl e \<Rightarrow> Inr (Fin 0)
                    | Inr r \<Rightarrow> Inr r)))"

section \<open>Float arithmetic\<close>

text \<open>
  Addition and multiplication of floats with the IEEE rules for the non-finite values;
  on finite values they are the exact operations.
\<close>

fun fadd :: "pyfloat \<Rightarrow> pyfloat \<Rightarrow> pyfloat" where
  "fadd (Fin a) (Fin b) = Fin (a + b)"
| "fadd (Fin a) PInf = PInf"
| "fadd (Fin a) NInf = NInf"
| "fadd (Fin a) NaN = NaN"
| "fadd PInf (Fin b) = PInf"
| "fadd PInf PInf = PInf"
| "fadd PInf NInf = NaN"
| "fadd PInf NaN = NaN"
| "fadd NInf (Fin b) = NInf"
| "fadd NInf PInf = NaN"
| "fadd NInf NInf = NInf"
| "fadd NInf NaN = NaN"
| "fadd NaN y = NaN"

definition inf_times :: "bool \<Rightarrow> real \<Rightarrow> pyfloat" where
  "inf_times positive x =
     (if x = 0 then NaN else if (0 < x) = positive then PInf else NInf)"

fun fmul :: "pyfloat \<Rightarrow> pyfloat \<Rightarrow> pyfloat" where
  "fmul (Fin a) (Fin b) = Fin (a * b)"
| "fmul (Fin a) PInf = inf_times True a"
| "fmul (Fin a) NInf = inf_times False a"
| "fmul (Fin a) NaN = NaN"
| "fmul PInf (Fin b) = inf_times True b"
| "fmul PInf PInf = PInf"
| "fmul PInf NInf = NInf"
| "fmul PInf NaN = NaN"
| "fmul NInf (Fin b) = inf_times False b"
| "fmul NInf PInf = NInf"
| "fmul NInf NInf = PInf"
| "fmul NInf NaN = NaN"
| "fmul NaN y = NaN"

text \<open>
  \<^verbatim>\<open>round(x, ndigits)\<close>: to the nearest multiple of \<open>10\<^sup>-\<^sup>n\<close>, a tie going to the even
  one; a non-finite float is returned as it is.
\<close>

definition round_half_even :: "real \<Rightarrow> int" where
  "round_half_even y =
     (let f = \<lfloor>y\<rfloor>; d = y - of_int f in
      if d < 1 / 2 then f
      else if 1 / 2 < d then f + 1
      else if even f then f else f + 1)"

fun py_round :: "pyfloat \<Rightarrow> nat \<Rightarrow> pyfloat" where
  "py_round (Fin x) n = Fin (of_int (round_half_even (x * 10 ^ n)) / 10 ^ n)"
| "py_round x n = x"

section \<open>Tables\<close>

text \<open>
  One row of the attendance sheet, column by column. \<^verbatim>\<open>calculate_salary\<close> reads five
  columns with \<^verbatim>\<open>row[...]\<close>, so they exist; it reads the two duration columns with
  \<^verbatim>\<open>row.get(..., 0)\<close>, so they may be absent (\<open>None\<close>). Any further column is kept in
  \<open>Other_columns\<close>. A DataFrame is the list of its rows.
\<close>

record row =
  Employee_ID :: pyval
  Employee_Name :: pyval
  Date :: pyval
  In_time :: pyval
  Out_time :: pyval
  Total_Working_hours :: "pyval option"
  Extra_Working_Time :: "pyval option"
  Other_columns :: "(string \<times> pyval) list"

type_synonym table = "row list"

text \<open>One dictionary appended to \<^verbatim>\<open>results\<close>: a row of the daily breakdown.\<close>

record entry =
  bd_Employee_ID :: pyval
  bd_Employee_Name :: pyval
  bd_Date :: pyval
  bd_In_Time :: pyval
  bd_Out_Time :: pyval
  bd_Total_Hours :: pyfloat
  bd_Extra_Hours :: pyfloat
  bd_Daily_Pay :: pyfloat

text \<open>One row of the monthly totals.\<close>

record monthly =
  mt_Employee_ID :: pyval
  mt_Employee_Name :: pyval
  mt_Total_Hours :: pyfloat
  mt_Extra_Hours :: pyfloat
  mt_Daily_Pay :: pyfloat
  mt_Fixed_Monthly_Pay :: real
  mt_Final_Monthly_Pay :: pyfloat

text \<open>The tuple \<^verbatim>\<open>calculate_salary\<close> returns.\<close>

record returned =
  ret_breakdown_df :: "entry list"
  ret_monthly_totals :: "monthly list"
  ret_hourly_wage :: real
  ret_daily_wage :: real

text \<open>
  The objects a call can reach: the DataFrames by address, and the list object that
  Python creates once for the default \<^verbatim>\<open>holidays=[]\<close> and shares between all calls.
  A holiday is a \<^verbatim>\<open>datetime.date\<close>, given by its day number.
\<close>

record world =
  frames :: "nat \<Rightarrow> table"
  default_holidays :: "nat list"

section \<open>The pandas operations \<^verbatim>\<open>calculate_salary\<close> calls\<close>

text \<open>
  \<^verbatim>\<open>pd.to_datetime(column, errors="coerce")\<close> gives every cell a timestamp or \<open>NaT\<close>.
  A timestamp stays as it is and a missing cell becomes \<open>NaT\<close>; how pandas reads any
  other value (a string, a number, a date, a time of day) is not part of this program
  and is the parameter \<open>parse\<close>: day number and time of day, or \<open>None\<close> when the value
  cannot be read.
\<close>

definition to_datetime :: "(pyval \<Rightarrow> (nat \<times> nat) option) \<Rightarrow> pyval \<Rightarrow> pyval" where
  "to_datetime parse v =
     (case v of
        PyTimestamp d t \<Rightarrow> PyTimestamp d t
      | PyNaN \<Rightarrow> PyNaT
      | PyNaT \<Rightarrow> PyNaT
      | _ \<Rightarrow> (case parse v of
                None \<Rightarrow> PyNaT
              | Some (d, t) \<Rightarrow> PyTimestamp d t))"

text \<open>\<^verbatim>\<open>.dt.time\<close> on a datetime column: the time of day, and \<open>NaT\<close> for \<open>NaT\<close>.\<close>

fun dt_time :: "pyval \<Rightarrow> pyval" where
  "dt_time (PyTimestamp d t) = PyTime t"
| "dt_time _ = PyNaT"

text \<open>
  \<^verbatim>\<open>date.weekday()\<close>: Monday is 0, and day number 1 is a Monday. On \<open>NaT\<close> pandas
  returns the float NaN; other values have no such method.
\<close>

fun weekday :: "pyval \<Rightarrow> exn + pyfloat" where
  "weekday (PyTimestamp d t) = Inr (Fin (real ((d + 6) mod 7)))"
| "weekday PyNaT = Inr NaN"
| "weekday _ = Inl AttributeError"

text \<open>\<^verbatim>\<open>date.date()\<close>: the calendar date of a timestamp; on \<open>NaT\<close> pandas returns \<open>NaT\<close>.\<close>

fun date_of :: "pyval \<Rightarrow> exn + pyval" where
  "date_of (PyTimestamp d t) = Inr (PyDate d)"
| "date_of PyNaT = Inr PyNaT"
| "date_of _ = Inl AttributeError"

text \<open>\<^verbatim>\<open>x in holidays\<close>, the holidays being dates: \<open>NaT\<close> equals no date.\<close>

fun py_in :: "pyval \<Rightarrow> nat list \<Rightarrow> bool" where
  "py_in (PyDate d) hs = (d \<in> set hs)"
| "py_in _ hs = False"

definition bind_exn :: "exn + 'a \<Rightarrow> ('a \<Rightarrow> exn + 'b) \<Rightarrow> exn + 'b" where
  "bind_exn m f = (case m of Inl e \<Rightarrow> Inl e | Inr x \<Rightarrow> f x)"

text \<open>
  The basic salary and the allowance: an \<^verbatim>\<open>int\<close> (what \<^verbatim>\<open>number_input(min_value=0)\<close>
  gives) or a finite \<^verbatim>\<open>float\<close>. The kind matters for the arithmetic: ints are added and
  multiplied exactly, and Python converts an int to a float, or divides two ints, only
  within the range of float.
\<close>

datatype number = PyInt int | PyFloat real

fun num_val :: "number \<Rightarrow> real" where
  "num_val (PyInt i) = real_of_int i"
| "num_val (PyFloat x) = x"

text \<open>
  \<^verbatim>\<open>basic_salary + allowance\<close>: each is a number, or \<open>None\<close> when it is missing, and
  adding \<open>None\<close> raises \<^verbatim>\<open>TypeError\<close>. An int added to a float is converted first.
\<close>

fun py_add :: "number option \<Rightarrow> number option \<Rightarrow> exn + number" where
  "py_add (Some (PyInt i)) (Some (PyInt j)) = Inr (PyInt (i + j))"
| "py_add (Some (PyInt i)) (Some (PyFloat y)) =
     (case int_to_float i of Inl e \<Rightarrow> Inl e | Inr x \<Rightarrow> Inr (PyFloat (x + y)))"
| "py_add (Some (PyFloat x)) (Some (PyInt j)) =
     (case int_to_float j of Inl e \<Rightarrow> Inl e | Inr y \<Rightarrow> Inr (PyFloat (x + y)))"
| "py_add (Some (PyFloat x)) (Some (PyFloat y)) = Inr (PyFloat (x + y))"
| "py_add _ _ = Inl TypeError"

text \<open>
  \<^verbatim>\<open>(basic_salary + allowance) * 12 / 365\<close> applied to the sum: on an int the product is
  exact and the division is the true division of two ints.
\<close>

fun daily_wage_of :: "number \<Rightarrow> exn + real" where
  "daily_wage_of (PyInt n) = int_truediv (n * 12) 365"
| "daily_wage_of (PyFloat x) = Inr (x * 12 / 365)"

text \<open>
  The scalar of \<^verbatim>\<open>monthly_totals["Daily Pay"] + (basic_salary + allowance)\<close>: the column
  holds floats, and NumPy (2.0 and later) converts an int scalar to a float once, for
  the whole column, before it adds.
\<close>

fun to_float :: "number \<Rightarrow> exn + real" where
  "to_float (PyInt n) = int_to_float n"
| "to_float (PyFloat x) = Inr x"

text \<open>
  The sum of a group in \<^verbatim>\<open>.agg({... "sum"})\<close>: pandas skips NaN and adds the rest,
  starting from 0.
\<close>

definition pd_sum :: "pyfloat list \<Rightarrow> pyfloat" where
  "pd_sum xs = foldl fadd (Fin 0) (filter (\<lambda>x. x \<noteq> NaN) xs)"

text \<open>
  \<^verbatim>\<open>groupby(["Employee ID", "Employee Name"])\<close> with pandas' defaults: a row whose key
  has a missing part belongs to no group (\<^verbatim>\<open>dropna=True\<close>), there is one group per
  distinct key, and the groups come sorted by key (\<^verbatim>\<open>sort=True\<close>), numbers before
  strings, numbers by value and strings by their characters.
\<close>

definition group_key :: "entry \<Rightarrow> pyval \<times> pyval" where
  "group_key e = (bd_Employee_ID e, bd_Employee_Name e)"

fun sort_rank :: "pyval \<Rightarrow> nat \<times> real \<times> string" where
  "sort_rank (PyNum x) = (0, x, [])"
| "sort_rank (PyStr s) = (1, 0, s)"
| "sort_rank _ = (2, 0, [])"

definition group_keys :: "entry list \<Rightarrow> (pyval \<times> pyval) list" where
  "group_keys es =
     sort_key (\<lambda>k. (sort_rank (fst k), sort_rank (snd k)))
       (remdups (filter (\<lambda>k. \<not> pd_isna (fst k) \<and> \<not> pd_isna (snd k)) (map group_key es)))"

text \<open>
  The aggregated row of one group, before the two pay columns are added (they are set
  to 0 here and assigned by \<^verbatim>\<open>calculate_salary\<close>).
\<close>

definition agg_group :: "entry list \<Rightarrow> pyval \<times> pyval \<Rightarrow> monthly" where
  "agg_group es k =
     (let g = filter (\<lambda>e. group_key e = k) es in
      \<lparr> mt_Employee_ID = fst k,
        mt_Employee_Name = snd k,
        mt_Total_Hours = pd_sum (map bd_Total_Hours g),
        mt_Extra_Hours = pd_sum (map bd_Extra_Hours g),
        mt_Daily_Pay = pd_sum (map bd_Daily_Pay g),
        mt_Fixed_Monthly_Pay = 0,
        mt_Final_Monthly_Pay = Fin 0 \<rparr>)"

text \<open>
  \<^verbatim>\<open>pd.DataFrame(results).groupby([...]).agg({...}).reset_index()\<close>. With no result
  at all the DataFrame has no columns, and grouping by a column it does not have raises
  \<^verbatim>\<open>KeyError\<close>.
\<close>

definition groupby_agg :: "entry list \<Rightarrow> exn + monthly list" where
  "groupby_agg es = (if es = [] then Inl KeyError else Inr (map (agg_group es) (group_keys es)))"

section \<open>\<^verbatim>\<open>calculate_salary\<close>\<close>

text \<open>The three column assignments at the top of the function, one after the other.\<close>

definition coerce_columns :: "(pyval \<Rightarrow> (nat \<times> nat) option) \<Rightarrow> table \<Rightarrow> table" where
  "coerce_columns parse df =
     (let df1 = map (\<lambda>r. r\<lparr>Date := to_datetime parse (Date r)\<rparr>) df;
          df2 = map (\<lambda>r. r\<lparr>In_time := dt_time (to_datetime parse (In_time r))\<rparr>) df1;
          df3 = map (\<lambda>r. r\<lparr>Out_time := dt_time (to_datetime parse (Out_time r))\<rparr>) df2
      in df3)"

text \<open>\<^verbatim>\<open>row.get(name, 0)\<close>: the cell, or 0 when the table has no such column.\<close>

fun row_get :: "pyval option \<Rightarrow> pyval" where
  "row_get None = PyNum 0"
| "row_get (Some v) = v"

text \<open>
  The condition \<^verbatim>\<open>date.weekday() == 4 or date.date() in holidays\<close>; the right side is
  evaluated only when the left side is false.
\<close>

definition rest_day :: "nat list \<Rightarrow> pyval \<Rightarrow> exn + bool" where
  "rest_day holidays d =
     bind_exn (weekday d) (\<lambda>wd.
       if wd = Fin 4 then Inr True
       else bind_exn (date_of d) (\<lambda>dd. Inr (py_in dd holidays)))"

text \<open>The body of the loop: the dictionary appended for one row.\<close>

definition process_row :: "real \<Rightarrow> nat list \<Rightarrow> row \<Rightarrow> exn + entry" where
  "process_row hourly holidays r =
     bind_exn (parse_hours (row_get (Total_Working_hours r))) (\<lambda>total_hours.
     bind_exn (parse_hours (row_get (Extra_Working_Time r))) (\<lambda>extra_hours.
     bind_exn (rest_day holidays (Date r)) (\<lambda>rest.
       let multiplier = (if rest then 3 / 2 else 1);
           normal_pay = fmul (fmul total_hours (Fin hourly)) (Fin multiplier);
           extra_pay = fmul extra_hours (Fin hourly);
           total_pay = fadd normal_pay extra_pay
       in bind_exn (date_of (Date r)) (\<lambda>dd.
            Inr \<lparr> bd_Employee_ID = Employee_ID r,
                  bd_Employee_Name = Employee_Name r,
                  bd_Date = dd,
                  bd_In_Time = In_time r,
                  bd_Out_Time = Out_time r,
                  bd_Total_Hours = total_hours,
                  bd_Extra_Hours = extra_hours,
                  bd_Daily_Pay = py_round total_pay 2 \<rparr>))))"

text \<open>The loop over the rows; an exception in one row ends it.\<close>

fun process_rows :: "real \<Rightarrow> nat list \<Rightarrow> table \<Rightarrow> exn + entry list" where
  "process_rows hourly holidays [] = Inr []"
| "process_rows hourly holidays (r # rs) =
     bind_exn (process_row hourly holidays r) (\<lambda>e.
     bind_exn (process_rows hourly holidays rs) (\<lambda>es. Inr (e # es)))"

text \<open>
  The whole function. \<open>df\<close> is the address of the caller's DataFrame; the call
  overwrites three of its columns before anything else, so the world it leaves holds
  the coerced table whether or not the rest raises. \<open>holidays\<close> is \<open>None\<close> when the
  argument is left out, and the shared default list is used then. The sum
  \<^verbatim>\<open>basic_salary + allowance\<close> is written three times in the source; the second and
  third evaluation give what the first gave. The fixed monthly pay is recorded by its
  value.
\<close>

definition calculate_salary ::
  "(pyval \<Rightarrow> (nat \<times> nat) option) \<Rightarrow> world \<Rightarrow> nat \<Rightarrow> number option \<Rightarrow> number option \<Rightarrow>
     nat list option \<Rightarrow> world \<times> (exn + returned)" where
  "calculate_salary parse w df basic_salary allowance holidays =
     (let w' = w\<lparr>frames := (frames w)(df := coerce_columns parse (frames w df))\<rparr>;
          hs = (case holidays of None \<Rightarrow> default_holidays w | Some h \<Rightarrow> h)
      in (w',
          bind_exn (py_add basic_salary allowance) (\<lambda>fixed.
          bind_exn (daily_wage_of fixed) (\<lambda>daily.
            let hourly = daily / 8
            in bind_exn (process_rows hourly hs (frames w' df)) (\<lambda>results.
               bind_exn (groupby_agg results) (\<lambda>totals.
               bind_exn (to_float fixed) (\<lambda>fixed_float.
                 Inr \<lparr> ret_breakdown_df = results,
                       ret_monthly_totals =
                         map (\<lambda>m. m\<lparr>mt_Fixed_Monthly_Pay := num_val fixed,
                                     mt_Final_Monthly_Pay :=
                                       fadd (mt_Daily_Pay m) (Fin fixed_float)\<rparr>)
                           totals,
                       ret_hourly_wage = hourly,
                       ret_daily_wage = daily \<rparr>)))))))"

section \<open>Conditions on the inputs and concrete inputs\<close>

text \<open>
  Inputs on which no conversion to float overflows: a cell that is not an int beyond
  the range of float, a row whose two duration cells are such cells, and a basic
  salary and allowance that are within the range together with their sum.
\<close>

definition float_cell :: "pyval \<Rightarrow> bool" where
  "float_cell v = (case v of PyNum x \<Rightarrow> in_float_range x | _ \<Rightarrow> True)"

definition hours_in_range :: "row \<Rightarrow> bool" where
  "hours_in_range r =
     (float_cell (row_get (Total_Working_hours r)) \<and>
      float_cell (row_get (Extra_Working_Time r)))"

definition salary_in_range :: "number \<Rightarrow> number \<Rightarrow> bool" where
  "salary_in_range b a =
     (in_float_range (num_val b) \<and> in_float_range (num_val a) \<and>
      in_float_range (num_val b + num_val a))"

text \<open>
  A float that is not negative: \<open>x >= 0.0\<close> in Python, which is false for NaN.
\<close>

fun is_nonneg :: "pyfloat \<Rightarrow> bool" where
  "is_nonneg (Fin x) = (0 \<le> x)"
| "is_nonneg PInf = True"
| "is_nonneg NInf = False"
| "is_nonneg NaN = False"

text \<open>
  A parser for \<open>to_datetime\<close> that reads no cell. The sheets below hold timestamps,
  missing cells and the text \<^verbatim>\<open>n/a\<close> in their date and time columns, so no other
  parser would give another result on them.
\<close>

definition ex_parse :: "pyval \<Rightarrow> (nat \<times> nat) option" where
  "ex_parse v = None"

text \<open>
  Three rows: Ann on Friday 2024-01-05 (day number 738890) with 8 hours and \<^verbatim>\<open>1:30\<close>
  extra, Ann on a day whose date cell is \<^verbatim>\<open>n/a\<close>, and Bob on Saturday 2024-01-06
  with \<^verbatim>\<open>7.5\<close> hours.
\<close>

definition ex_row_fri :: row where
  "ex_row_fri =
     \<lparr> Employee_ID = PyNum 1, Employee_Name = PyStr ''Ann'',
       Date = PyTimestamp 738890 0,
       In_time = PyTimestamp 738890 32400, Out_time = PyTimestamp 738890 61200,
       Total_Working_hours = Some (PyNum 8), Extra_Working_Time = Some (PyStr ''1:30''),
       Other_columns = [] \<rparr>"

definition ex_row_bad :: row where
  "ex_row_bad =
     \<lparr> Employee_ID = PyNum 1, Employee_Name = PyStr ''Ann'',
       Date = PyStr ''n/a'',
       In_time = PyNaN, Out_time = PyNaN,
       Total_Working_hours = Some (PyNum 8), Extra_Working_Time = None,
       Other_columns = [] \<rparr>"

definition ex_row_sat :: row where
  "ex_row_sat =
     \<lparr> Employee_ID = PyNum 2, Employee_Name = PyStr ''Bob'',
       Date = PyTimestamp 738891 0,
       In_time = PyNaN, Out_time = PyNaN,
       Total_Working_hours = Some (PyStr ''7.5''), Extra_Working_Time = Some PyNaN,
       Other_columns = [] \<rparr>"

text \<open>A row whose employee name is missing.\<close>

definition ex_row_noname :: row where
  "ex_row_noname =
     \<lparr> Employee_ID = PyNum 3, Employee_Name = PyNaN,
       Date = PyTimestamp 738891 0,
       In_time = PyNaN, Out_time = PyNaN,
       Total_Working_hours = Some (PyNum 8), Extra_Working_Time = Some (PyNum 0),
       Other_columns = [] \<rparr>"

text \<open>
  A row whose date cell is \<^verbatim>\<open>n/a\<close> and whose hours cell holds the int \<open>10\<^sup>4\<^sup>0\<^sup>0\<close>, which
  is beyond the range of float.
\<close>

definition ex_row_huge :: row where
  "ex_row_huge =
     \<lparr> Employee_ID = PyNum 4, Employee_Name = PyStr ''Dan'',
       Date = PyStr ''n/a'',
       In_time = PyNaN, Out_time = PyNaN,
       Total_Working_hours = Some (PyNum (10 ^ 400)), Extra_Working_Time = None,
       Other_columns = [] \<rparr>"

text \<open>
  A world with the three rows at address 0, the row without a name at address 1, the
  row with the huge int at address 3, and an empty table everywhere else.
\<close>

definition ex_world :: world where
  "ex_world =
     \<lparr> frames = (\<lambda>p. if p = 0 then [ex_row_fri, ex_row_bad, ex_row_sat]
                       else if p = 1 then [ex_row_noname]
                       else if p = 3 then [ex_row_huge] else []),
       default_holidays = [] \<rparr>"

text \<open>
  The text \<^verbatim>\<open>HH:30\<close> whose \<^verbatim>\<open>HH\<close> is a 1 followed by 400 zeros, that is \<open>10\<^sup>4\<^sup>0\<^sup>0\<close>.
\<close>

definition ex_long_hours :: string where
  "ex_long_hours = CHR ''1'' # replicate 400 (CHR ''0'') @ '':30''"

text \<open>
  What the call on the three rows returns for a basic salary of 36000 and an allowance
  of 500, both ints, so that the daily wage is 1200 and the hourly wage 150.
\<close>

definition ex_out :: returned where
  "ex_out =
     \<lparr> ret_breakdown_df =
         [\<lparr> bd_Employee_ID = PyNum 1, bd_Employee_Name = PyStr ''Ann'',
            bd_Date = PyDate 738890, bd_In_Time = PyTime 32400,
            bd_Out_Time = PyTime 61200, bd_Total_Hours = Fin 8,
            bd_Extra_Hours = Fin (3 / 2), bd_Daily_Pay = Fin 2025 \<rparr>,
          \<lparr> bd_Employee_ID = PyNum 1, bd_Employee_Name = PyStr ''Ann'',
            bd_Date = PyNaT, bd_In_Time = PyNaT, bd_Out_Time = PyNaT,
            bd_Total_Hours = Fin 8, bd_Extra_Hours = Fin 0,
            bd_Daily_Pay = Fin 1200 \<rparr>,
          \<lparr> bd_Employee_ID = PyNum 2, bd_Employee_Name = PyStr ''Bob'',
            bd_Date = PyDate 738891, bd_In_Time = PyNaT, bd_Out_Time = PyNaT,
            bd_Total_Hours = Fin (15 / 2), bd_Extra_Hours = Fin 0,
            bd_Daily_Pay = Fin 1125 \<rparr>],
       ret_monthly_totals =
         [\<lparr> mt_Employee_ID = PyNum 1, mt_Employee_Name = PyStr ''Ann'',
            mt_Total_Hours = Fin 16, mt_Extra_Hours = Fin (3 / 2),
            mt_Daily_Pay = Fin 3225, mt_Fixed_Monthly_Pay = 36500,
            mt_Final_Monthly_Pay = Fin 39725 \<rparr>,
          \<lparr> mt_Employee_ID = PyNum 2, mt_Employee_Name = PyStr ''Bob'',
            mt_Total_Hours = Fin (15 / 2), mt_Extra_Hours = Fin 0,
            mt_Daily_Pay = Fin 1125, mt_Fixed_Monthly_Pay = 36500,
            mt_Final_Monthly_Pay = Fin 37625 \<rparr>],
       ret_hourly_wage = 150,
       ret_daily_wage = 1200 \<rparr>"

section \<open>Basic facts\<close>

lemma in_float_range_bound: "\<bar>x\<bar> \<le> 10 ^ 300 \<Longrightarrow> in_float_range x"
proof -
  have "(10::real) ^ 300 < 2 ^ 1024 - 2 ^ 970"
    by simp
  then show "\<bar>x\<bar> \<le> 10 ^ 300 \<Longrightarrow> in_float_range x"
    by (simp add: in_float_range_def float_limit_def)
qed

lemma parse_hours_num: "in_float_range x \<Longrightarrow> parse_hours (PyNum x) = Inr (Fin x)"
  by (simp add: parse_hours_def)

lemma bind_exn_Inr [simp]: "bind_exn (Inr x) f = f x"
  by (simp add: bind_exn_def)

lemma bind_exn_Inl [simp]: "bind_exn (Inl e) f = Inl e"
  by (simp add: bind_exn_def)

lemma bind_exn_eq_Inr: "bind_exn m f = Inr y \<longleftrightarrow> (\<exists>x. m = Inr x \<and> f x = Inr y)"
  by (cases m) simp_all


lemma parse_hours_returns: "float_cell v \<Longrightarrow> \<exists>r. parse_hours v = Inr r"
  by (cases v) (auto simp: parse_hours_def float_cell_def split: sum.splits)


lemma parse_hours_Inr: "parse_hours v = Inr r \<Longrightarrow> float_cell v"
  by (cases v) (auto simp: parse_hours_def float_cell_def split: sum.splits if_splits)

lemma fmul_one: "fmul x (Fin 1) = x"
  by (cases x) (simp_all add: inf_times_def)

lemma fadd_commute: "fadd x y = fadd y x"
  by (cases x; cases y) simp_all

lemma to_datetime_cases:
  "(\<exists>d t. to_datetime parse v = PyTimestamp d t) \<or> to_datetime parse v = PyNaT"
  by (cases v) (auto simp: to_datetime_def split: option.splits)

lemma coerce_columns_map:
  "coerce_columns parse df =
     map (\<lambda>r. r\<lparr>Date := to_datetime parse (Date r),
                In_time := dt_time (to_datetime parse (In_time r)),
                Out_time := dt_time (to_datetime parse (Out_time r))\<rparr>) df"
  by (simp add: coerce_columns_def Let_def comp_def)

lemma rest_day_coerced:
  "rest_day hs (to_datetime parse v) =
     Inr (case to_datetime parse v of
            PyTimestamp d t \<Rightarrow> (d + 6) mod 7 = 4 \<or> d \<in> set hs
          | _ \<Rightarrow> False)"
  using to_datetime_cases [of parse v] by (auto simp: rest_day_def)

lemma date_of_coerced:
  "date_of (to_datetime parse v) =
     Inr (case to_datetime parse v of PyTimestamp d t \<Rightarrow> PyDate d | _ \<Rightarrow> PyNaT)"
  using to_datetime_cases [of parse v] by auto

lemma process_rows_Inr:
  "process_rows hw hs rows = Inr es \<longleftrightarrow> list_all2 (\<lambda>r e. process_row hw hs r = Inr e) rows es"
proof (induction rows arbitrary: es)
  case Nil
  show ?case by auto
next
  case (Cons r rows)
  show ?case
    by (cases es) (auto simp: bind_exn_eq_Inr Cons.IH)
qed

text \<open>
  The loop body on a row whose Date cell is already coerced: the date raises nothing,
  so the entry is there as soon as the two duration cells are read.
\<close>

lemma process_row_coerced:
  assumes "Date r = to_datetime parse v"
  shows "process_row hw hs r =
     bind_exn (parse_hours (row_get (Total_Working_hours r))) (\<lambda>th.
     bind_exn (parse_hours (row_get (Extra_Working_Time r))) (\<lambda>eh.
       Inr \<lparr> bd_Employee_ID = Employee_ID r,
             bd_Employee_Name = Employee_Name r,
             bd_Date = (case Date r of PyTimestamp d t \<Rightarrow> PyDate d | _ \<Rightarrow> PyNaT),
             bd_In_Time = In_time r,
             bd_Out_Time = Out_time r,
             bd_Total_Hours = th,
             bd_Extra_Hours = eh,
             bd_Daily_Pay =
               py_round
                 (fadd
                    (fmul (fmul th (Fin hw))
                       (Fin (if (case Date r of
                                   PyTimestamp d t \<Rightarrow> (d + 6) mod 7 = 4 \<or> d \<in> set hs
                                 | _ \<Rightarrow> False)
                             then 3 / 2 else 1)))
                    (fmul eh (Fin hw))) 2 \<rparr>))"
  by (simp add: process_row_def assms rest_day_coerced date_of_coerced Let_def)

lemma process_row_coerced_Inr:
  assumes "Date r = to_datetime parse v" and "process_row hw hs r = Inr e"
  shows "\<exists>th eh.
           parse_hours (row_get (Total_Working_hours r)) = Inr th \<and>
           parse_hours (row_get (Extra_Working_Time r)) = Inr eh \<and>
           e = \<lparr> bd_Employee_ID = Employee_ID r,
                 bd_Employee_Name = Employee_Name r,
                 bd_Date = (case Date r of PyTimestamp d t \<Rightarrow> PyDate d | _ \<Rightarrow> PyNaT),
                 bd_In_Time = In_time r,
                 bd_Out_Time = Out_time r,
                 bd_Total_Hours = th,
                 bd_Extra_Hours = eh,
                 bd_Daily_Pay =
                   py_round
                     (fadd
                        (fmul (fmul th (Fin hw))
                           (Fin (if (case Date r of
                                       PyTimestamp d t \<Rightarrow> (d + 6) mod 7 = 4 \<or> d \<in> set hs
                                     | _ \<Rightarrow> False)
                                 then 3 / 2 else 1)))
                        (fmul eh (Fin hw))) 2 \<rparr>"
  using assms(2) unfolding process_row_coerced [OF assms(1)] bind_exn_eq_Inr by blast

lemma process_row_coerced_returns:
  assumes "Date r = to_datetime parse v" and "hours_in_range r"
  shows "\<exists>e. process_row hw hs r = Inr e"
proof -
  obtain th where th: "parse_hours (row_get (Total_Working_hours r)) = Inr th"
    using assms(2) parse_hours_returns unfolding hours_in_range_def by blast
  obtain eh where eh: "parse_hours (row_get (Extra_Working_Time r)) = Inr eh"
    using assms(2) parse_hours_returns unfolding hours_in_range_def by blast
  show ?thesis
    unfolding process_row_coerced [OF assms(1)] th eh bind_exn_Inr by blast
qed

lemma process_row_coerced_hours:
  assumes "Date r = to_datetime parse v" and "process_row hw hs r = Inr e"
  shows "hours_in_range r"
  using process_row_coerced_Inr [OF assms] parse_hours_Inr unfolding hours_in_range_def
  by blast


lemma process_rows_total:
  "(\<And>r. r \<in> set rows \<Longrightarrow> \<exists>e. process_row hw hs r = Inr e) \<Longrightarrow>
   \<exists>es. process_rows hw hs rows = Inr es"
proof (induction rows)
  case Nil
  show ?case by simp
next
  case (Cons r rows)
  obtain e where e: "process_row hw hs r = Inr e"
    using Cons.prems by auto
  obtain es where es: "process_rows hw hs rows = Inr es"
    using Cons by auto
  show ?case by (simp add: e es)
qed


lemma coerced_Date:
  "r \<in> set (coerce_columns parse df) \<Longrightarrow> \<exists>v. Date r = to_datetime parse v"
  by (auto simp: coerce_columns_map)

lemma coerced_hours:
  "(\<forall>r \<in> set (coerce_columns parse df). hours_in_range r) \<longleftrightarrow>
   (\<forall>r \<in> set df. hours_in_range r)"
  by (simp add: coerce_columns_map hours_in_range_def)

lemma process_rows_coerced:
  assumes "\<forall>r \<in> set df. hours_in_range r"
  shows "\<exists>es. process_rows hw hs (coerce_columns parse df) = Inr es"
proof (rule process_rows_total)
  fix r assume r: "r \<in> set (coerce_columns parse df)"
  then obtain v where v: "Date r = to_datetime parse v"
    using coerced_Date by blast
  have "hours_in_range r"
    using assms r coerced_hours [of parse df] by blast
  from process_row_coerced_returns [OF v this, of hw hs]
  show "\<exists>e. process_row hw hs r = Inr e" .
qed

lemma process_rows_coerced_hours:
  assumes "process_rows hw hs (coerce_columns parse df) = Inr es"
  shows "\<forall>r \<in> set df. hours_in_range r"
proof -
  have "hours_in_range r" if r: "r \<in> set (coerce_columns parse df)" for r
  proof -
    obtain v where v: "Date r = to_datetime parse v"
      using r coerced_Date by blast
    from assms r obtain e where "process_row hw hs r = Inr e"
      unfolding process_rows_Inr by (auto simp: list_all2_conv_all_nth in_set_conv_nth)
    with v show ?thesis
      by (rule process_row_coerced_hours)
  qed
  then show ?thesis
    using coerced_hours [of parse df] by blast
qed


lemma process_rows_length:
  "process_rows hw hs rows = Inr es \<Longrightarrow> length es = length rows"
  by (simp add: process_rows_Inr list_all2_lengthD)

lemma process_rows_nth:
  "process_rows hw hs rows = Inr es \<Longrightarrow> i < length rows \<Longrightarrow>
   process_row hw hs (rows ! i) = Inr (es ! i)"
  using list_all2_nthD [of "\<lambda>r e. process_row hw hs r = Inr e" rows es i]
  by (simp add: process_rows_Inr)

text \<open>The arithmetic on the salary: its value when it raises nothing, and when it does.\<close>

lemma py_add_val:
  "py_add (Some b) (Some a) = Inr fixed \<Longrightarrow> num_val fixed = num_val b + num_val a"
  by (cases b; cases a) (auto simp: int_to_float_def split: if_splits)

lemma py_add_Some:
  "py_add basic_salary allowance = Inr fixed \<Longrightarrow>
   \<exists>b a. basic_salary = Some b \<and> allowance = Some a"
  by (cases basic_salary; cases allowance) simp_all

lemma daily_wage_of_val:
  "daily_wage_of fixed = Inr d \<Longrightarrow> d = num_val fixed * 12 / 365"
  by (cases fixed) (auto simp: int_truediv_def split: if_splits)

lemma to_float_val: "to_float fixed = Inr f \<Longrightarrow> f = num_val fixed"
  by (cases fixed) (auto simp: int_to_float_def split: if_splits)




lemma in_float_range_wage: "in_float_range x \<Longrightarrow> in_float_range (x * 12 / 365)"
proof -
  have "\<bar>x * 12 / 365\<bar> \<le> \<bar>x\<bar>"
    by (simp add: abs_mult)
  then show "in_float_range x \<Longrightarrow> in_float_range (x * 12 / 365)"
    by (simp add: in_float_range_def)
qed

lemma salary_in_range_arith:
  assumes "salary_in_range b a"
  shows "\<exists>fixed. py_add (Some b) (Some a) = Inr fixed \<and>
           daily_wage_of fixed = Inr (num_val fixed * 12 / 365) \<and>
           to_float fixed = Inr (num_val fixed)"
proof -
  from assms have rb: "in_float_range (num_val b)" and ra: "in_float_range (num_val a)"
    and rs: "in_float_range (num_val b + num_val a)"
    by (simp_all add: salary_in_range_def)
  from rb ra obtain fixed where f: "py_add (Some b) (Some a) = Inr fixed"
    by (cases b; cases a) (auto simp: int_to_float_def)
  have v: "num_val fixed = num_val b + num_val a"
    using f by (rule py_add_val)
  have r: "in_float_range (num_val fixed)"
    using rs by (simp add: v)
  have d: "daily_wage_of fixed = Inr (num_val fixed * 12 / 365)"
    using in_float_range_wage [OF r] by (cases fixed) (simp_all add: int_truediv_def)
  have t: "to_float fixed = Inr (num_val fixed)"
    using r by (cases fixed) (simp_all add: int_to_float_def)
  from f d t show ?thesis by blast
qed

text \<open>What a call returns, in terms of the loop and the grouping.\<close>

lemma calculate_salary_world:
  "fst (calculate_salary parse w df basic_salary allowance holidays) =
     w\<lparr>frames := (frames w)(df := coerce_columns parse (frames w df))\<rparr>"
  by (simp add: calculate_salary_def Let_def)

lemma calculate_salary_None:
  "basic_salary = None \<or> allowance = None \<Longrightarrow>
   snd (calculate_salary parse w df basic_salary allowance holidays) = Inl TypeError"
  by (cases basic_salary; cases allowance) (simp_all add: calculate_salary_def Let_def)

lemma calculate_salary_snd:
  "snd (calculate_salary parse w df basic_salary allowance holidays) =
     bind_exn (py_add basic_salary allowance) (\<lambda>fixed.
     bind_exn (daily_wage_of fixed) (\<lambda>daily.
     bind_exn
       (process_rows (daily / 8)
          (case holidays of None \<Rightarrow> default_holidays w | Some h \<Rightarrow> h)
          (coerce_columns parse (frames w df)))
       (\<lambda>es. if es = [] then Inl KeyError
             else bind_exn (to_float fixed) (\<lambda>fixed_float.
               Inr \<lparr> ret_breakdown_df = es,
                     ret_monthly_totals =
                       map (\<lambda>m. m\<lparr>mt_Fixed_Monthly_Pay := num_val fixed,
                                   mt_Final_Monthly_Pay :=
                                     fadd (mt_Daily_Pay m) (Fin fixed_float)\<rparr>)
                         (map (agg_group es) (group_keys es)),
                     ret_hourly_wage = daily / 8,
                     ret_daily_wage = daily \<rparr>))))"
proof -
  have inner:
    "bind_exn (groupby_agg es) f =
       (if es = [] then Inl KeyError else f (map (agg_group es) (group_keys es)))" for es f
    by (simp only: groupby_agg_def bind_exn_Inl bind_exn_Inr split: if_split) simp
  have sel: "frames (w\<lparr>frames := f\<rparr>) = f" for f
    by simp
  show ?thesis
    by (simp only: calculate_salary_def Let_def snd_conv sel fun_upd_same inner)
qed

lemma calculate_salary_Inr_iff:
  "snd (calculate_salary parse w df basic_salary allowance holidays) = Inr out \<longleftrightarrow>
     (\<exists>b a fixed es.
        basic_salary = Some b \<and> allowance = Some a \<and>
        py_add (Some b) (Some a) = Inr fixed \<and>
        daily_wage_of fixed = Inr ((num_val b + num_val a) * 12 / 365) \<and>
        to_float fixed = Inr (num_val b + num_val a) \<and>
        process_rows ((num_val b + num_val a) * 12 / 365 / 8)
          (case holidays of None \<Rightarrow> default_holidays w | Some h \<Rightarrow> h)
          (coerce_columns parse (frames w df)) = Inr es \<and>
        es \<noteq> [] \<and>
        out = \<lparr> ret_breakdown_df = es,
                ret_monthly_totals =
                  map (\<lambda>m. m\<lparr>mt_Fixed_Monthly_Pay := num_val b + num_val a,
                              mt_Final_Monthly_Pay :=
                                fadd (mt_Daily_Pay m) (Fin (num_val b + num_val a))\<rparr>)
                    (map (agg_group es) (group_keys es)),
                ret_hourly_wage = (num_val b + num_val a) * 12 / 365 / 8,
                ret_daily_wage = (num_val b + num_val a) * 12 / 365 \<rparr>)"
  (is "?L \<longleftrightarrow> ?R")
proof
  let ?hs = "case holidays of None \<Rightarrow> default_holidays w | Some h \<Rightarrow> h"
  let ?rows = "coerce_columns parse (frames w df)"
  assume ?L
  then obtain fixed daily es where
    f: "py_add basic_salary allowance = Inr fixed"
    and d: "daily_wage_of fixed = Inr daily"
    and es: "process_rows (daily / 8) ?hs ?rows = Inr es"
    and rest: "(if es = [] then Inl KeyError
             else bind_exn (to_float fixed) (\<lambda>fixed_float.
               Inr \<lparr> ret_breakdown_df = es,
                     ret_monthly_totals =
                       map (\<lambda>m. m\<lparr>mt_Fixed_Monthly_Pay := num_val fixed,
                                   mt_Final_Monthly_Pay :=
                                     fadd (mt_Daily_Pay m) (Fin fixed_float)\<rparr>)
                         (map (agg_group es) (group_keys es)),
                     ret_hourly_wage = daily / 8,
                     ret_daily_wage = daily \<rparr>)) = Inr out"
    unfolding calculate_salary_snd bind_exn_eq_Inr by blast
  have ne: "es \<noteq> []"
    using rest by (cases "es = []") simp_all
  from rest ne obtain ff where
    t: "to_float fixed = Inr ff"
    and out: "out = \<lparr> ret_breakdown_df = es,
                     ret_monthly_totals =
                       map (\<lambda>m. m\<lparr>mt_Fixed_Monthly_Pay := num_val fixed,
                                   mt_Final_Monthly_Pay :=
                                     fadd (mt_Daily_Pay m) (Fin ff)\<rparr>)
                         (map (agg_group es) (group_keys es)),
                     ret_hourly_wage = daily / 8,
                     ret_daily_wage = daily \<rparr>"
    by (simp only: if_False bind_exn_eq_Inr sum.inject) blast
  obtain b a where b: "basic_salary = Some b" and a: "allowance = Some a"
    using py_add_Some [OF f] by blast
  have f': "py_add (Some b) (Some a) = Inr fixed"
    using f unfolding b a .
  have v: "num_val fixed = num_val b + num_val a"
    using f' by (rule py_add_val)
  have dv: "daily = (num_val b + num_val a) * 12 / 365"
    using daily_wage_of_val [OF d] unfolding v .
  have tv: "ff = num_val b + num_val a"
    using to_float_val [OF t] unfolding v .
  show ?R
    using b a f' d t es ne out unfolding v dv tv by blast
next
  let ?hs = "case holidays of None \<Rightarrow> default_holidays w | Some h \<Rightarrow> h"
  let ?rows = "coerce_columns parse (frames w df)"
  assume ?R
  then obtain b a fixed es where
    b: "basic_salary = Some b" and a: "allowance = Some a"
    and f: "py_add (Some b) (Some a) = Inr fixed"
    and d: "daily_wage_of fixed = Inr ((num_val b + num_val a) * 12 / 365)"
    and t: "to_float fixed = Inr (num_val b + num_val a)"
    and es: "process_rows ((num_val b + num_val a) * 12 / 365 / 8) ?hs ?rows = Inr es"
    and ne: "es \<noteq> []"
    and out: "out = \<lparr> ret_breakdown_df = es,
                ret_monthly_totals =
                  map (\<lambda>m. m\<lparr>mt_Fixed_Monthly_Pay := num_val b + num_val a,
                              mt_Final_Monthly_Pay :=
                                fadd (mt_Daily_Pay m) (Fin (num_val b + num_val a))\<rparr>)
                    (map (agg_group es) (group_keys es)),
                ret_hourly_wage = (num_val b + num_val a) * 12 / 365 / 8,
                ret_daily_wage = (num_val b + num_val a) * 12 / 365 \<rparr>"
    by blast
  have v: "num_val fixed = num_val b + num_val a"
    using f by (rule py_add_val)
  show ?L
    unfolding calculate_salary_snd b a f bind_exn_Inr d es t v out using ne
    by (simp only: if_False)
qed

lemma calculate_salary_InrE:
  assumes "snd (calculate_salary parse w df basic_salary allowance holidays) = Inr out"
  obtains b a dw hw es where
    "basic_salary = Some b" "allowance = Some a"
    "dw = (num_val b + num_val a) * 12 / 365" "hw = dw / 8"
    "process_rows hw (case holidays of None \<Rightarrow> default_holidays w | Some h \<Rightarrow> h)
       (coerce_columns parse (frames w df)) = Inr es"
    "es \<noteq> []"
    "ret_breakdown_df out = es"
    "ret_monthly_totals out =
       map (\<lambda>m. m\<lparr>mt_Fixed_Monthly_Pay := num_val b + num_val a,
                   mt_Final_Monthly_Pay :=
                     fadd (mt_Daily_Pay m) (Fin (num_val b + num_val a))\<rparr>)
         (map (agg_group es) (group_keys es))"
    "ret_hourly_wage out = hw" "ret_daily_wage out = dw"
proof -
  from assms obtain b a fixed es where
    b: "basic_salary = Some b" and a: "allowance = Some a"
    and es: "process_rows ((num_val b + num_val a) * 12 / 365 / 8)
          (case holidays of None \<Rightarrow> default_holidays w | Some h \<Rightarrow> h)
          (coerce_columns parse (frames w df)) = Inr es"
    and ne: "es \<noteq> []"
    and out: "out = \<lparr> ret_breakdown_df = es,
                ret_monthly_totals =
                  map (\<lambda>m. m\<lparr>mt_Fixed_Monthly_Pay := num_val b + num_val a,
                              mt_Final_Monthly_Pay :=
                                fadd (mt_Daily_Pay m) (Fin (num_val b + num_val a))\<rparr>)
                    (map (agg_group es) (group_keys es)),
                ret_hourly_wage = (num_val b + num_val a) * 12 / 365 / 8,
                ret_daily_wage = (num_val b + num_val a) * 12 / 365 \<rparr>"
    unfolding calculate_salary_Inr_iff by blast
  show ?thesis
  proof (rule that [OF b a refl refl es ne])
    show "ret_breakdown_df out = es" by (simp only: out returned.simps)
    show "ret_monthly_totals out =
       map (\<lambda>m. m\<lparr>mt_Fixed_Monthly_Pay := num_val b + num_val a,
                   mt_Final_Monthly_Pay :=
                     fadd (mt_Daily_Pay m) (Fin (num_val b + num_val a))\<rparr>)
         (map (agg_group es) (group_keys es))" by (simp only: out returned.simps)
    show "ret_hourly_wage out = (num_val b + num_val a) * 12 / 365 / 8"
      by (simp only: out returned.simps)
    show "ret_daily_wage out = (num_val b + num_val a) * 12 / 365"
      by (simp only: out returned.simps)
  qed
qed

lemma length_coerce_columns: "length (coerce_columns parse df) = length df"
  by (simp add: coerce_columns_map)

lemma calculate_salary_returns:
  assumes "frames w df \<noteq> []" and "salary_in_range b a"
    and "\<forall>r \<in> set (frames w df). hours_in_range r"
  shows "\<exists>out. snd (calculate_salary parse w df (Some b) (Some a) holidays) = Inr out"
proof -
  let ?hs = "case holidays of None \<Rightarrow> default_holidays w | Some h \<Rightarrow> h"
  from salary_in_range_arith [OF assms(2)] obtain fixed where
    f: "py_add (Some b) (Some a) = Inr fixed"
    and d: "daily_wage_of fixed = Inr (num_val fixed * 12 / 365)"
    and t: "to_float fixed = Inr (num_val fixed)"
    by blast
  have v: "num_val fixed = num_val b + num_val a"
    using f by (rule py_add_val)
  obtain es where es:
    "process_rows ((num_val b + num_val a) * 12 / 365 / 8) ?hs
       (coerce_columns parse (frames w df)) = Inr es"
    using process_rows_coerced [OF assms(3)] by blast
  have "length es = length (coerce_columns parse (frames w df))"
    using es by (rule process_rows_length)
  then have ne: "es \<noteq> []"
    using assms(1) by (auto simp: length_coerce_columns)
  show ?thesis
    unfolding calculate_salary_Inr_iff
    using f d t es ne unfolding v by blast
qed


lemma coerce_columns_nth:
  "i < length df \<Longrightarrow>
   coerce_columns parse df ! i =
     (df ! i)\<lparr>Date := to_datetime parse (Date (df ! i)),
              In_time := dt_time (to_datetime parse (In_time (df ! i))),
              Out_time := dt_time (to_datetime parse (Out_time (df ! i)))\<rparr>"
  by (simp add: coerce_columns_map)

text \<open>The entry of the daily breakdown that the loop makes of row \<open>i\<close> of the table.\<close>

lemma entry_of_row:
  assumes es: "process_rows hw hs (coerce_columns parse df) = Inr es"
    and i: "i < length df"
  shows "\<exists>th eh.
           parse_hours (row_get (Total_Working_hours (df ! i))) = Inr th \<and>
           parse_hours (row_get (Extra_Working_Time (df ! i))) = Inr eh \<and>
           es ! i =
             \<lparr> bd_Employee_ID = Employee_ID (df ! i),
               bd_Employee_Name = Employee_Name (df ! i),
               bd_Date = (case to_datetime parse (Date (df ! i)) of
                            PyTimestamp d t \<Rightarrow> PyDate d
                          | _ \<Rightarrow> PyNaT),
               bd_In_Time = dt_time (to_datetime parse (In_time (df ! i))),
               bd_Out_Time = dt_time (to_datetime parse (Out_time (df ! i))),
               bd_Total_Hours = th,
               bd_Extra_Hours = eh,
               bd_Daily_Pay =
                 py_round
                   (fadd
                      (fmul (fmul th (Fin hw))
                         (Fin (if (case to_datetime parse (Date (df ! i)) of
                                     PyTimestamp d t \<Rightarrow> (d + 6) mod 7 = 4 \<or> d \<in> set hs
                                   | _ \<Rightarrow> False)
                               then 3 / 2 else 1)))
                      (fmul eh (Fin hw))) 2 \<rparr>"
proof -
  let ?r = "coerce_columns parse df ! i"
  have r: "?r = (df ! i)\<lparr>Date := to_datetime parse (Date (df ! i)),
              In_time := dt_time (to_datetime parse (In_time (df ! i))),
              Out_time := dt_time (to_datetime parse (Out_time (df ! i)))\<rparr>"
    using i by (rule coerce_columns_nth)
  have d: "Date ?r = to_datetime parse (Date (df ! i))"
    by (simp add: r)
  have e: "process_row hw hs ?r = Inr (es ! i)"
    using es i by (simp add: process_rows_nth length_coerce_columns)
  from process_row_coerced_Inr [OF d e]
  show ?thesis
    by (simp add: r)
qed

section \<open>The concrete inputs, evaluated\<close>

lemmas number_defs =
  in_float_range_def float_limit_def int_to_float_def int_truediv_def

lemmas string_defs =
  strip_def isspace_def strip_number_def isspace_number_def int_digits_def
  max_str_digits_def ndigits_def isdigit_def digit_of_def

lemma parse_hours_1_30: "parse_hours (PyStr ''1:30'') = Inr (Fin (3 / 2))"
  by (simp add: parse_hours_def parse_hours_try_def py_int_def string_defs number_defs)

lemma parse_hours_7_5: "parse_hours (PyStr ''7.5'') = Inr (Fin (15 / 2))"
  by (simp add: parse_hours_def parse_hours_try_def py_float_def
      unsigned_float_def lower_def mantissa_def string_defs)

lemma parse_hours_isna: "pd_isna v \<Longrightarrow> parse_hours v = Inr (Fin 0)"
  by (simp add: parse_hours_def)

lemma parse_hours_0: "parse_hours (PyNum 0) = Inr (Fin 0)"
  by (simp add: parse_hours_def number_defs)

lemma parse_hours_8: "parse_hours (PyNum 8) = Inr (Fin 8)"
  by (simp add: parse_hours_def number_defs)

lemmas ex_defs =
  ex_world_def ex_row_fri_def ex_row_bad_def ex_row_sat_def ex_row_noname_def ex_parse_def
  ex_row_huge_def

lemmas eval_defs =
  calculate_salary_snd coerce_columns_map to_datetime_def process_row_def
  parse_hours_1_30 parse_hours_7_5 parse_hours_0 parse_hours_8 parse_hours_isna rest_day_def
  Let_def round_half_even_def group_keys_def group_key_def agg_group_def pd_sum_def
  number_defs

lemma ex_call:
  "snd (calculate_salary ex_parse ex_world 0 (Some (PyInt 36000)) (Some (PyInt 500)) None) =
     Inr ex_out"
  by (simp add: eval_defs ex_defs ex_out_def)

lemma ex_frames_0: "frames ex_world 0 = [ex_row_fri, ex_row_bad, ex_row_sat]"
  by (simp add: ex_world_def)


lemma parse_hours_huge: "parse_hours (PyNum (10 ^ 400)) = Inl OverflowError"
  by (simp add: parse_hours_def number_defs)


lemma ex_hours_in_range: "\<forall>r \<in> set (frames ex_world 0). hours_in_range r"
  by (simp add: ex_frames_0 hours_in_range_def float_cell_def ex_row_fri_def ex_row_bad_def
      ex_row_sat_def number_defs)

lemma salary_in_range_PyInt:
  "\<bar>real_of_int i\<bar> \<le> 10 ^ 200 \<Longrightarrow> \<bar>real_of_int j\<bar> \<le> 10 ^ 200 \<Longrightarrow>
   salary_in_range (PyInt i) (PyInt j)"
proof -
  assume i: "\<bar>real_of_int i\<bar> \<le> 10 ^ 200" and j: "\<bar>real_of_int j\<bar> \<le> 10 ^ 200"
  have "\<bar>real_of_int i + real_of_int j\<bar> \<le> 10 ^ 200 + 10 ^ 200"
    using i j by linarith
  also have "\<dots> \<le> (10::real) ^ 300"
    by simp
  finally have s: "\<bar>real_of_int i + real_of_int j\<bar> \<le> 10 ^ 300" .
  have i': "\<bar>real_of_int i\<bar> \<le> 10 ^ 300"
    using i by (rule order_trans) simp
  have j': "\<bar>real_of_int j\<bar> \<le> 10 ^ 300"
    using j by (rule order_trans) simp
  show ?thesis
    using in_float_range_bound [OF i'] in_float_range_bound [OF j'] in_float_range_bound [OF s]
    by (simp add: salary_in_range_def)
qed

section \<open>The claims\<close>

text \<open>
  C1. For every attendance record whose parsed date is a Friday (weekday index 4,
  Monday = 0) or is one of the holidays, the daily pay of its entry is
  \<open>round(totalHours * hourlyWage * 1.5 + extraHours * hourlyWage, 2)\<close>; for every
  other record the multiplier is 1, so the daily pay is
  \<open>round(totalHours * hourlyWage + extraHours * hourlyWage, 2)\<close>. The extra hours are
  multiplied by the hourly wage alone in both cases. Here \<open>totalHours\<close> and
  \<open>extraHours\<close> are what \<open>parse_hours\<close> makes of the two duration cells of the record.
\<close>

theorem daily_pay_multiplier:
  assumes "snd (calculate_salary parse w df basic_salary allowance holidays) = Inr out"
    and "i < length (frames w df)"
  shows "i < length (ret_breakdown_df out) \<and>
    (let r = frames w df ! i;
         e = ret_breakdown_df out ! i;
         hw = ret_hourly_wage out;
         hs = (case holidays of None \<Rightarrow> default_holidays w | Some h \<Rightarrow> h)
     in parse_hours (row_get (Total_Working_hours r)) = Inr (bd_Total_Hours e) \<and>
        parse_hours (row_get (Extra_Working_Time r)) = Inr (bd_Extra_Hours e) \<and>
        (\<forall>d t. to_datetime parse (Date r) = PyTimestamp d t \<and>
                ((d + 6) mod 7 = 4 \<or> d \<in> set hs) \<longrightarrow>
           bd_Daily_Pay e =
             py_round (fadd (fmul (fmul (bd_Total_Hours e) (Fin hw)) (Fin (3 / 2)))
                            (fmul (bd_Extra_Hours e) (Fin hw))) 2) \<and>
        (\<not> (\<exists>d t. to_datetime parse (Date r) = PyTimestamp d t \<and>
                ((d + 6) mod 7 = 4 \<or> d \<in> set hs)) \<longrightarrow>
           bd_Daily_Pay e =
             py_round (fadd (fmul (bd_Total_Hours e) (Fin hw))
                            (fmul (bd_Extra_Hours e) (Fin hw))) 2))"
proof -
  let ?hs = "case holidays of None \<Rightarrow> default_holidays w | Some h \<Rightarrow> h"
  from assms(1) obtain b a dw hw es where
    es: "process_rows hw ?hs (coerce_columns parse (frames w df)) = Inr es"
    and bd: "ret_breakdown_df out = es" and hw: "ret_hourly_wage out = hw"
    by (rule calculate_salary_InrE)
  have len: "length es = length (frames w df)"
    using process_rows_length [OF es] by (simp add: length_coerce_columns)
  from entry_of_row [OF es assms(2)] obtain th eh where
    th: "parse_hours (row_get (Total_Working_hours (frames w df ! i))) = Inr th"
    and eh: "parse_hours (row_get (Extra_Working_Time (frames w df ! i))) = Inr eh"
    and e: "es ! i =
             \<lparr> bd_Employee_ID = Employee_ID (frames w df ! i),
               bd_Employee_Name = Employee_Name (frames w df ! i),
               bd_Date = (case to_datetime parse (Date (frames w df ! i)) of
                            PyTimestamp d t \<Rightarrow> PyDate d
                          | _ \<Rightarrow> PyNaT),
               bd_In_Time = dt_time (to_datetime parse (In_time (frames w df ! i))),
               bd_Out_Time = dt_time (to_datetime parse (Out_time (frames w df ! i))),
               bd_Total_Hours = th,
               bd_Extra_Hours = eh,
               bd_Daily_Pay =
                 py_round
                   (fadd
                      (fmul (fmul th (Fin hw))
                         (Fin (if (case to_datetime parse (Date (frames w df ! i)) of
                                     PyTimestamp d t \<Rightarrow> (d + 6) mod 7 = 4 \<or> d \<in> set ?hs
                                   | _ \<Rightarrow> False)
                               then 3 / 2 else 1)))
                      (fmul eh (Fin hw))) 2 \<rparr>"
    by blast
  have rest: "(case to_datetime parse (Date (frames w df ! i)) of
                 PyTimestamp d t \<Rightarrow> (d + 6) mod 7 = 4 \<or> d \<in> set ?hs
               | _ \<Rightarrow> False) \<longleftrightarrow>
              (\<exists>d t. to_datetime parse (Date (frames w df ! i)) = PyTimestamp d t \<and>
                 ((d + 6) mod 7 = 4 \<or> d \<in> set ?hs))"
    by (cases "to_datetime parse (Date (frames w df ! i))") simp_all
  let ?P = "\<exists>d t. to_datetime parse (Date (frames w df ! i)) = PyTimestamp d t \<and>
                 ((d + 6) mod 7 = 4 \<or> d \<in> set ?hs)"
  have tot: "bd_Total_Hours (es ! i) = th" and ext: "bd_Extra_Hours (es ! i) = eh"
    by (simp_all add: e)
  have pay: "bd_Daily_Pay (es ! i) =
               py_round (fadd (fmul (fmul th (Fin hw)) (Fin (if ?P then 3 / 2 else 1)))
                              (fmul eh (Fin hw))) 2"
    unfolding rest [symmetric] by (simp add: e)
  show ?thesis
    unfolding Let_def bd hw tot ext
  proof (intro conjI allI impI)
    show "i < length es"
      using len assms(2) by simp
    show "parse_hours (row_get (Total_Working_hours (frames w df ! i))) = Inr th"
      by (rule th)
    show "parse_hours (row_get (Extra_Working_Time (frames w df ! i))) = Inr eh"
      by (rule eh)
  next
    fix d t
    assume "to_datetime parse (Date (frames w df ! i)) = PyTimestamp d t \<and>
              ((d + 6) mod 7 = 4 \<or> d \<in> set ?hs)"
    then have "?P" by blast
    then have c: "(if ?P then 3 / 2 else (1::real)) = 3 / 2"
      by (rule if_P)
    show "bd_Daily_Pay (es ! i) =
        py_round (fadd (fmul (fmul th (Fin hw)) (Fin (3 / 2))) (fmul eh (Fin hw))) 2"
      using pay unfolding c .
  next
    assume "\<not> ?P"
    then have c: "(if ?P then 3 / 2 else (1::real)) = 1"
      by (rule if_not_P)
    show "bd_Daily_Pay (es ! i) =
        py_round (fadd (fmul th (Fin hw)) (fmul eh (Fin hw))) 2"
      using pay unfolding c fmul_one .
  qed
qed

theorem daily_pay_multiplier_witness:
  "snd (calculate_salary ex_parse ex_world 0 (Some (PyInt 36000)) (Some (PyInt 500)) None) = Inr ex_out \<and>
   (0::nat) < length (frames ex_world 0) \<and>
   to_datetime ex_parse (Date (frames ex_world 0 ! 0)) = PyTimestamp 738890 0 \<and>
   (738890 + 6) mod 7 = (4::nat) \<and>
   bd_Daily_Pay (ret_breakdown_df ex_out ! 0) =
     py_round (fadd (fmul (fmul (Fin 8) (Fin 150)) (Fin (3 / 2)))
                    (fmul (Fin (3 / 2)) (Fin 150))) 2"
  using daily_pay_multiplier [of ex_parse ex_world 0 "Some (PyInt 36000)" "Some (PyInt 500)" None ex_out 0]
    ex_call
  by (simp add: ex_frames_0 ex_row_fri_def to_datetime_def ex_out_def)

text \<open>
  C3. \<open>calculate_salary\<close> computes the daily wage as
  \<open>(basicSalary + allowance) * 12 / 365\<close> and the hourly wage as a eighth of it, and
  returns exactly these two values whenever it returns; it returns for every table with
  at least one row when no number of the call is beyond the range of float. For a basic
  salary of 30000 and an allowance of 5000 the daily wage is 1150.68 and the hourly wage
  143.84, both to two decimal places.
\<close>

theorem wage_rates:
  "(snd (calculate_salary parse w df basic_salary allowance holidays) = Inr out \<longrightarrow>
      (\<exists>b a. basic_salary = Some b \<and> allowance = Some a \<and>
         ret_daily_wage out = (num_val b + num_val a) * 12 / 365 \<and>
         ret_hourly_wage out = ret_daily_wage out / 8)) \<and>
   (frames w df \<noteq> [] \<and> salary_in_range b' a' \<and>
    (\<forall>r \<in> set (frames w df). hours_in_range r) \<longrightarrow>
      (\<exists>out'. snd (calculate_salary parse w df (Some b') (Some a') holidays) = Inr out')) \<and>
   (snd (calculate_salary parse w df (Some (PyInt 30000)) (Some (PyInt 5000)) holidays) =
      Inr out2 \<longrightarrow>
      \<bar>ret_daily_wage out2 - 1150.68\<bar> < 0.005 \<and>
      \<bar>ret_hourly_wage out2 - 143.84\<bar> < 0.005)"
proof (intro conjI impI)
  assume r: "snd (calculate_salary parse w df basic_salary allowance holidays) = Inr out"
  from r obtain b a dw hw where
    b: "basic_salary = Some b" and a: "allowance = Some a"
    and dw: "dw = (num_val b + num_val a) * 12 / 365" and hw: "hw = dw / 8"
    and rh: "ret_hourly_wage out = hw" and rd: "ret_daily_wage out = dw"
    by (rule calculate_salary_InrE)
  have d: "ret_daily_wage out = (num_val b + num_val a) * 12 / 365"
    unfolding rd dw ..
  have h: "ret_hourly_wage out = ret_daily_wage out / 8"
    unfolding rh rd hw ..
  show "\<exists>b a. basic_salary = Some b \<and> allowance = Some a \<and>
         ret_daily_wage out = (num_val b + num_val a) * 12 / 365 \<and>
         ret_hourly_wage out = ret_daily_wage out / 8"
    using b a d h by (intro exI conjI)
next
  assume "frames w df \<noteq> [] \<and> salary_in_range b' a' \<and>
    (\<forall>r \<in> set (frames w df). hours_in_range r)"
  then show "\<exists>out'. snd (calculate_salary parse w df (Some b') (Some a') holidays) = Inr out'"
    using calculate_salary_returns by blast
next
  assume r: "snd (calculate_salary parse w df (Some (PyInt 30000)) (Some (PyInt 5000)) holidays) =
      Inr out2"
  from r obtain b a :: number and dw hw where
    b: "Some (PyInt 30000) = Some b" and a: "Some (PyInt 5000) = Some a"
    and dw: "dw = (num_val b + num_val a) * 12 / 365" and hw: "hw = dw / 8"
    and rh: "ret_hourly_wage out2 = hw" and rd: "ret_daily_wage out2 = dw"
    by (rule calculate_salary_InrE)
  have b': "num_val b = 30000" and a': "num_val a = 5000"
    using b a by auto
  have d: "ret_daily_wage out2 = 35000 * 12 / 365"
    unfolding rd dw b' a' by simp
  have h: "ret_hourly_wage out2 = 35000 * 12 / 365 / 8"
    unfolding rh hw dw b' a' by simp
  show "\<bar>ret_daily_wage out2 - 1150.68\<bar> < 0.005"
    unfolding d by simp
  show "\<bar>ret_hourly_wage out2 - 143.84\<bar> < 0.005"
    unfolding h by simp
qed

theorem wage_rates_witness:
  "snd (calculate_salary ex_parse ex_world 0 (Some (PyInt 36000)) (Some (PyInt 500)) None) =
     Inr ex_out \<and>
   ret_daily_wage ex_out = (36000 + 500) * 12 / 365 \<and>
   ret_hourly_wage ex_out = ret_daily_wage ex_out / 8 \<and>
   frames ex_world 0 \<noteq> [] \<and>
   salary_in_range (PyInt 30000) (PyInt 5000) \<and>
   list_all hours_in_range (frames ex_world 0) \<and>
   (\<exists>out. snd (calculate_salary ex_parse ex_world 0 (Some (PyInt 30000)) (Some (PyInt 5000))
                  None) = Inr out \<and>
      \<bar>ret_daily_wage out - 1150.68\<bar> < 0.005 \<and>
      \<bar>ret_hourly_wage out - 143.84\<bar> < 0.005)"
proof -
  have ne: "frames ex_world 0 \<noteq> []"
    by (simp add: ex_frames_0)
  have sr: "salary_in_range (PyInt 30000) (PyInt 5000)"
    by (rule salary_in_range_PyInt) simp_all
  have hr: "list_all hours_in_range (frames ex_world 0)"
    using ex_hours_in_range by (simp add: list_all_iff)
  note t = wage_rates [of ex_parse ex_world 0 "Some (PyInt 36000)" "Some (PyInt 500)" None
      ex_out "PyInt 30000" "PyInt 5000"]
  have "\<exists>out'. snd (calculate_salary ex_parse ex_world 0 (Some (PyInt 30000))
                      (Some (PyInt 5000)) None) = Inr out'"
    by (rule mp [OF conjunct1 [OF conjunct2 [OF t [of ex_out]]]])
      (intro conjI, rule ne, rule sr, rule ex_hours_in_range)
  then obtain out where
    out: "snd (calculate_salary ex_parse ex_world 0 (Some (PyInt 30000)) (Some (PyInt 5000))
                 None) = Inr out"
    ..
  have ap: "\<bar>ret_daily_wage out - 1150.68\<bar> < 0.005 \<and> \<bar>ret_hourly_wage out - 143.84\<bar> < 0.005"
    by (rule mp [OF conjunct2 [OF conjunct2 [OF t [of out]]] out])
  have e: "\<exists>out. snd (calculate_salary ex_parse ex_world 0 (Some (PyInt 30000))
                  (Some (PyInt 5000)) None) = Inr out \<and>
      \<bar>ret_daily_wage out - 1150.68\<bar> < 0.005 \<and>
      \<bar>ret_hourly_wage out - 143.84\<bar> < 0.005"
    by (rule exI [of _ out]) (rule conjI [OF out ap])
  have d: "ret_daily_wage ex_out = (36000 + 500) * 12 / 365"
    by (simp add: ex_out_def)
  have h: "ret_hourly_wage ex_out = ret_daily_wage ex_out / 8"
    by (simp add: ex_out_def)
  show ?thesis
    by (intro conjI) (rule ex_call, rule d, rule h, rule ne, rule sr, rule hr, rule e)
qed




text \<open>
  C8 (as the code has it). \<open>calculate_salary\<close> makes no check of the sign of the basic
  salary or the allowance, and negative numbers are taken like any others: for any two
  numbers, negative ones too, and a table with at least one row, no number of the call
  being beyond the range of float, it raises nothing and returns a breakdown computed
  with the daily wage \<open>(basicSalary + allowance) * 12 / 365\<close> and the hourly wage an
  eighth of it; and these are the two wages of every call that returns. A missing
  (\<open>None\<close>) salary or allowance does stop the call: the addition raises \<open>TypeError\<close>
  before any row is processed and nothing is returned, the date and time columns of the
  input table having been overwritten already.
\<close>

theorem no_salary_validation:
  "(frames w df \<noteq> [] \<and> salary_in_range b a \<and>
    (\<forall>r \<in> set (frames w df). hours_in_range r) \<longrightarrow>
      (\<exists>out. snd (calculate_salary parse w df (Some b) (Some a) holidays) = Inr out \<and>
         ret_daily_wage out = (num_val b + num_val a) * 12 / 365 \<and>
         ret_hourly_wage out = (num_val b + num_val a) * 12 / 365 / 8 \<and>
         length (ret_breakdown_df out) = length (frames w df))) \<and>
   (snd (calculate_salary parse w df (Some b) (Some a) holidays) = Inr out' \<longrightarrow>
      ret_daily_wage out' = (num_val b + num_val a) * 12 / 365 \<and>
      ret_hourly_wage out' = (num_val b + num_val a) * 12 / 365 / 8 \<and>
      length (ret_breakdown_df out') = length (frames w df)) \<and>
   (basic_salary = None \<or> allowance = None \<longrightarrow>
      snd (calculate_salary parse w df basic_salary allowance holidays) = Inl TypeError \<and>
      frames (fst (calculate_salary parse w df basic_salary allowance holidays)) df =
        coerce_columns parse (frames w df))"
proof -
  let ?hs = "case holidays of None \<Rightarrow> default_holidays w | Some h \<Rightarrow> h"
  have ret: "ret_daily_wage out = (num_val b + num_val a) * 12 / 365 \<and>
      ret_hourly_wage out = (num_val b + num_val a) * 12 / 365 / 8 \<and>
      length (ret_breakdown_df out) = length (frames w df)"
    if out: "snd (calculate_salary parse w df (Some b) (Some a) holidays) = Inr out" for out
  proof -
    from out obtain b' a' dw hw es where
      b: "Some b = Some b'" and a: "Some a = Some a'"
      and dw: "dw = (num_val b' + num_val a') * 12 / 365" and hw: "hw = dw / 8"
      and es: "process_rows hw ?hs (coerce_columns parse (frames w df)) = Inr es"
      and bd: "ret_breakdown_df out = es"
      and rh: "ret_hourly_wage out = hw" and rd: "ret_daily_wage out = dw"
      by (rule calculate_salary_InrE)
    have b': "b' = b" and a': "a' = a"
      using b a by simp_all
    have d: "ret_daily_wage out = (num_val b + num_val a) * 12 / 365"
      unfolding rd dw b' a' ..
    have h: "ret_hourly_wage out = (num_val b + num_val a) * 12 / 365 / 8"
      unfolding rh hw dw b' a' ..
    have l: "length (ret_breakdown_df out) = length (frames w df)"
      unfolding bd using process_rows_length [OF es] by (simp add: length_coerce_columns)
    show ?thesis
      by (intro conjI) (rule d, rule h, rule l)
  qed
  show ?thesis
  proof (intro conjI impI)
    assume "frames w df \<noteq> [] \<and> salary_in_range b a \<and>
      (\<forall>r \<in> set (frames w df). hours_in_range r)"
    then obtain out where
      out: "snd (calculate_salary parse w df (Some b) (Some a) holidays) = Inr out"
      using calculate_salary_returns by blast
    show "\<exists>out. snd (calculate_salary parse w df (Some b) (Some a) holidays) = Inr out \<and>
         ret_daily_wage out = (num_val b + num_val a) * 12 / 365 \<and>
         ret_hourly_wage out = (num_val b + num_val a) * 12 / 365 / 8 \<and>
         length (ret_breakdown_df out) = length (frames w df)"
      by (rule exI [of _ out]) (rule conjI [OF out ret [OF out]])
  next
    assume out: "snd (calculate_salary parse w df (Some b) (Some a) holidays) = Inr out'"
    show "ret_daily_wage out' = (num_val b + num_val a) * 12 / 365"
      by (rule conjunct1 [OF ret [OF out]])
    show "ret_hourly_wage out' = (num_val b + num_val a) * 12 / 365 / 8"
      by (rule conjunct1 [OF conjunct2 [OF ret [OF out]]])
    show "length (ret_breakdown_df out') = length (frames w df)"
      by (rule conjunct2 [OF conjunct2 [OF ret [OF out]]])
  next
    assume "basic_salary = None \<or> allowance = None"
    then show "snd (calculate_salary parse w df basic_salary allowance holidays) = Inl TypeError"
      by (rule calculate_salary_None)
  next
    show "frames (fst (calculate_salary parse w df basic_salary allowance holidays)) df =
          coerce_columns parse (frames w df)"
      by (simp add: calculate_salary_world)
  qed
qed

theorem no_salary_validation_witness:
  "frames ex_world 0 \<noteq> [] \<and>
   salary_in_range (PyInt (- 36000)) (PyInt (- 500)) \<and>
   list_all hours_in_range (frames ex_world 0) \<and>
   (\<exists>out. snd (calculate_salary ex_parse ex_world 0 (Some (PyInt (- 36000)))
                  (Some (PyInt (- 500))) None) = Inr out \<and>
      ret_daily_wage out = - 1200 \<and> ret_hourly_wage out = - 150 \<and>
      length (ret_breakdown_df out) = length (frames ex_world 0)) \<and>
   snd (calculate_salary ex_parse ex_world 0 (Some (PyInt 36000)) (Some (PyInt 500)) None) =
     Inr ex_out \<and>
   ret_daily_wage ex_out = 1200 \<and> ret_hourly_wage ex_out = 150 \<and>
   snd (calculate_salary ex_parse ex_world 0 None (Some (PyInt 500)) None) = Inl TypeError"
proof -
  note u = no_salary_validation [of ex_world 0 "PyInt 36000" "PyInt 500" ex_parse
      None ex_out None "Some (PyInt 500)"]
  from mp [OF conjunct1 [OF conjunct2 [OF u]] ex_call]
  have pd: "ret_daily_wage ex_out = 1200" and ph: "ret_hourly_wage ex_out = 150"
    by simp_all
  have ne: "frames ex_world 0 \<noteq> []"
    by (simp add: ex_frames_0)
  have sr: "salary_in_range (PyInt (- 36000)) (PyInt (- 500))"
    by (rule salary_in_range_PyInt) simp_all
  have hr: "list_all hours_in_range (frames ex_world 0)"
    using ex_hours_in_range by (simp add: list_all_iff)
  note t = no_salary_validation [of ex_world 0 "PyInt (- 36000)" "PyInt (- 500)" ex_parse
      None ex_out None "Some (PyInt 500)"]
  have hyp: "frames ex_world 0 \<noteq> [] \<and> salary_in_range (PyInt (- 36000)) (PyInt (- 500)) \<and>
    (\<forall>r \<in> set (frames ex_world 0). hours_in_range r)"
    by (intro conjI) (rule ne, rule sr, rule ex_hours_in_range)
  from mp [OF conjunct1 [OF t] hyp] obtain out where
    out: "snd (calculate_salary ex_parse ex_world 0 (Some (PyInt (- 36000)))
            (Some (PyInt (- 500))) None) = Inr out"
    and d: "ret_daily_wage out =
      (num_val (PyInt (- 36000)) + num_val (PyInt (- 500))) * 12 / 365"
    and h: "ret_hourly_wage out =
      (num_val (PyInt (- 36000)) + num_val (PyInt (- 500))) * 12 / 365 / 8"
    and l: "length (ret_breakdown_df out) = length (frames ex_world 0)"
    by blast
  have d': "ret_daily_wage out = - 1200" unfolding d by simp
  have h': "ret_hourly_wage out = - 150" unfolding h by simp
  have e: "\<exists>out. snd (calculate_salary ex_parse ex_world 0 (Some (PyInt (- 36000)))
                  (Some (PyInt (- 500))) None) = Inr out \<and>
      ret_daily_wage out = - 1200 \<and> ret_hourly_wage out = - 150 \<and>
      length (ret_breakdown_df out) = length (frames ex_world 0)"
    by (rule exI [of _ out]) (intro conjI, rule out, rule d', rule h', rule l)
  have n: "snd (calculate_salary ex_parse ex_world 0 None (Some (PyInt 500)) None) =
      Inl TypeError"
    using conjunct2 [OF conjunct2 [OF t]] by simp
  show ?thesis
    by (intro conjI) (rule ne, rule sr, rule hr, rule e, rule ex_call, rule pd, rule ph,
        rule n)
qed

text \<open>
  C8 as the specification states it fails: with a basic salary of -36500 and no
  allowance the call on the three rows raises nothing; it returns an hourly wage of
  -150 and negative daily pays.
\<close>

theorem negative_salary_counterexample:
  "map_sum id ret_hourly_wage
     (snd (calculate_salary ex_parse ex_world 0 (Some (PyInt (- 36500))) (Some (PyInt 0))
        None)) = Inr (- 150) \<and>
   map_sum id (\<lambda>out. map bd_Daily_Pay (ret_breakdown_df out))
     (snd (calculate_salary ex_parse ex_world 0 (Some (PyInt (- 36500))) (Some (PyInt 0))
        None)) =
     Inr [Fin (- 2025), Fin (- 1200), Fin (- 1125)]"
  by (simp add: eval_defs ex_defs)

section \<open>Grouping\<close>

lemma process_row_key:
  "process_row hw hs r = Inr e \<Longrightarrow> group_key e = (Employee_ID r, Employee_Name r)"
  by (auto simp: process_row_def bind_exn_eq_Inr Let_def group_key_def)

lemma process_rows_keys:
  "process_rows hw hs rows = Inr es \<Longrightarrow>
   map group_key es = map (\<lambda>r. (Employee_ID r, Employee_Name r)) rows"
proof (induction rows arbitrary: es)
  case Nil
  then show ?case by simp
next
  case (Cons r rows)
  from Cons.prems obtain e es' where
    e: "process_row hw hs r = Inr e" and es': "process_rows hw hs rows = Inr es'"
    and es: "es = e # es'"
    by (auto simp: bind_exn_eq_Inr)
  show ?case
    by (simp add: es process_row_key [OF e] Cons.IH [OF es'])
qed

lemma coerce_columns_keys:
  "map (\<lambda>r. (Employee_ID r, Employee_Name r)) (coerce_columns parse df) =
   map (\<lambda>r. (Employee_ID r, Employee_Name r)) df"
  by (simp add: coerce_columns_map comp_def)

lemma set_group_keys:
  "set (group_keys es) =
     {k. k \<in> set (map group_key es) \<and> \<not> pd_isna (fst k) \<and> \<not> pd_isna (snd k)}"
  by (auto simp: group_keys_def)

lemma distinct_group_keys: "distinct (group_keys es)"
  by (simp add: group_keys_def)

lemma monthly_keys:
  "map (\<lambda>m. (mt_Employee_ID m, mt_Employee_Name m))
     (map (\<lambda>m. m\<lparr>mt_Fixed_Monthly_Pay := x, mt_Final_Monthly_Pay := f m\<rparr>)
        (map (agg_group es) ks)) = ks"
  by (induction ks) (simp_all add: agg_group_def Let_def)

lemma pd_sum_Fin_acc: "foldl fadd (Fin a) (map Fin xs) = Fin (a + sum_list xs)"
  by (induction xs arbitrary: a) (simp_all add: add.assoc)

lemma pd_sum_Fin: "pd_sum (map Fin xs) = Fin (sum_list xs)"
proof -
  have "filter (\<lambda>x. x \<noteq> NaN) (map Fin xs) = map Fin xs"
    by (induction xs) simp_all
  then show ?thesis
    by (simp add: pd_sum_def pd_sum_Fin_acc)
qed

text \<open>
  C2. For every row of the monthly totals the final monthly pay is the fixed monthly pay
  plus the sum of the daily pays, with no rounding added; the fixed monthly pay is
  \<open>basicSalary + allowance\<close> on every row; and the sum of the daily pays is the sum
  that pandas takes of the rounded daily pays of the entries of that employee, which is
  their plain sum when they are all finite.
\<close>

theorem monthly_final_pay:
  assumes "snd (calculate_salary parse w df basic_salary allowance holidays) = Inr out"
    and "m \<in> set (ret_monthly_totals out)"
  shows "\<exists>b a. basic_salary = Some b \<and> allowance = Some a \<and>
     mt_Fixed_Monthly_Pay m = num_val b + num_val a \<and>
     mt_Final_Monthly_Pay m = fadd (Fin (mt_Fixed_Monthly_Pay m)) (mt_Daily_Pay m) \<and>
     mt_Daily_Pay m =
       pd_sum (map bd_Daily_Pay
         (filter (\<lambda>e. group_key e = (mt_Employee_ID m, mt_Employee_Name m))
            (ret_breakdown_df out))) \<and>
     (\<forall>xs. map bd_Daily_Pay
             (filter (\<lambda>e. group_key e = (mt_Employee_ID m, mt_Employee_Name m))
                (ret_breakdown_df out)) = map Fin xs \<longrightarrow>
           mt_Daily_Pay m = Fin (sum_list xs))"
proof -
  from assms(1) obtain b a dw hw es where
    b: "basic_salary = Some b" and a: "allowance = Some a"
    and bd: "ret_breakdown_df out = es"
    and mt: "ret_monthly_totals out =
       map (\<lambda>m. m\<lparr>mt_Fixed_Monthly_Pay := num_val b + num_val a,
                   mt_Final_Monthly_Pay :=
                     fadd (mt_Daily_Pay m) (Fin (num_val b + num_val a))\<rparr>)
         (map (agg_group es) (group_keys es))"
    by (rule calculate_salary_InrE)
  from assms(2) obtain k where
    m: "m = (agg_group es k)\<lparr>mt_Fixed_Monthly_Pay := num_val b + num_val a,
              mt_Final_Monthly_Pay :=
                fadd (mt_Daily_Pay (agg_group es k)) (Fin (num_val b + num_val a))\<rparr>"
    unfolding mt by auto
  have key: "(mt_Employee_ID m, mt_Employee_Name m) = k"
    by (simp add: m agg_group_def Let_def)
  have fixed: "mt_Fixed_Monthly_Pay m = num_val b + num_val a"
    by (simp add: m)
  have final: "mt_Final_Monthly_Pay m = fadd (Fin (mt_Fixed_Monthly_Pay m)) (mt_Daily_Pay m)"
    by (simp add: m fadd_commute)
  have daily: "mt_Daily_Pay m =
       pd_sum (map bd_Daily_Pay
         (filter (\<lambda>e. group_key e = (mt_Employee_ID m, mt_Employee_Name m))
            (ret_breakdown_df out)))"
    unfolding key bd by (simp add: m agg_group_def Let_def)
  have plain: "\<forall>xs. map bd_Daily_Pay
             (filter (\<lambda>e. group_key e = (mt_Employee_ID m, mt_Employee_Name m))
                (ret_breakdown_df out)) = map Fin xs \<longrightarrow>
           mt_Daily_Pay m = Fin (sum_list xs)"
  proof (intro allI impI)
    fix xs
    assume "map bd_Daily_Pay
             (filter (\<lambda>e. group_key e = (mt_Employee_ID m, mt_Employee_Name m))
                (ret_breakdown_df out)) = map Fin xs"
    then show "mt_Daily_Pay m = Fin (sum_list xs)"
      using daily by (simp add: pd_sum_Fin)
  qed
  show ?thesis
    by (intro exI [of _ b] exI [of _ a] conjI) (rule b, rule a, rule fixed, rule final,
        rule daily, rule plain)
qed

theorem monthly_final_pay_witness:
  "snd (calculate_salary ex_parse ex_world 0 (Some (PyInt 36000)) (Some (PyInt 500)) None) = Inr ex_out \<and>
   ret_monthly_totals ex_out ! 0 \<in> set (ret_monthly_totals ex_out) \<and>
   mt_Fixed_Monthly_Pay (ret_monthly_totals ex_out ! 0) = 36000 + 500 \<and>
   mt_Daily_Pay (ret_monthly_totals ex_out ! 0) = Fin (sum_list [2025, 1200]) \<and>
   mt_Final_Monthly_Pay (ret_monthly_totals ex_out ! 0) = fadd (Fin 36500) (Fin 3225)"
proof -
  have m: "ret_monthly_totals ex_out ! 0 \<in> set (ret_monthly_totals ex_out)"
    by (simp add: ex_out_def)
  from monthly_final_pay [OF ex_call m]
  have "mt_Fixed_Monthly_Pay (ret_monthly_totals ex_out ! 0) = 36000 + 500"
    by auto
  then show ?thesis
    using ex_call m by (simp add: ex_out_def)
qed

text \<open>
  C6 (as the code has it). For every batch on which \<open>calculate_salary\<close> returns, the
  pairs of employee id and employee name of the monthly totals are exactly the pairs of
  the input records in which neither part is missing, and each of them is there once.
  A record whose employee id or name is missing belongs to no group and is left out of
  the monthly totals; on a batch with no record the call raises and there are no monthly
  totals at all, the exception being \<open>KeyError\<close> when the salary and the allowance
  are numbers within the range of float.
\<close>

theorem monthly_keys_complete:
  "(snd (calculate_salary parse w df basic_salary allowance holidays) = Inr out \<longrightarrow>
      set (map (\<lambda>m. (mt_Employee_ID m, mt_Employee_Name m)) (ret_monthly_totals out)) =
        {k. k \<in> set (map (\<lambda>r. (Employee_ID r, Employee_Name r)) (frames w df)) \<and>
            \<not> pd_isna (fst k) \<and> \<not> pd_isna (snd k)} \<and>
      distinct (map (\<lambda>m. (mt_Employee_ID m, mt_Employee_Name m)) (ret_monthly_totals out))) \<and>
   (frames w df = [] \<longrightarrow>
      snd (calculate_salary parse w df basic_salary allowance holidays) \<noteq> Inr out' \<and>
      (salary_in_range b a \<longrightarrow>
         snd (calculate_salary parse w df (Some b) (Some a) holidays) = Inl KeyError))"
proof (intro conjI impI)
  let ?hs = "case holidays of None \<Rightarrow> default_holidays w | Some h \<Rightarrow> h"
  assume r: "snd (calculate_salary parse w df basic_salary allowance holidays) = Inr out"
  from r obtain b' a' dw hw es where
    es: "process_rows hw ?hs (coerce_columns parse (frames w df)) = Inr es"
    and mt: "ret_monthly_totals out =
       map (\<lambda>m. m\<lparr>mt_Fixed_Monthly_Pay := num_val b' + num_val a',
                   mt_Final_Monthly_Pay :=
                     fadd (mt_Daily_Pay m) (Fin (num_val b' + num_val a'))\<rparr>)
         (map (agg_group es) (group_keys es))"
    by (rule calculate_salary_InrE)
  have keys: "map (\<lambda>m. (mt_Employee_ID m, mt_Employee_Name m)) (ret_monthly_totals out) =
      group_keys es"
    unfolding mt by (rule monthly_keys)
  have rows: "map group_key es = map (\<lambda>r. (Employee_ID r, Employee_Name r)) (frames w df)"
    using process_rows_keys [OF es] by (simp only: coerce_columns_keys)
  show "set (map (\<lambda>m. (mt_Employee_ID m, mt_Employee_Name m)) (ret_monthly_totals out)) =
        {k. k \<in> set (map (\<lambda>r. (Employee_ID r, Employee_Name r)) (frames w df)) \<and>
            \<not> pd_isna (fst k) \<and> \<not> pd_isna (snd k)}"
    unfolding keys set_group_keys rows ..
  show "distinct (map (\<lambda>m. (mt_Employee_ID m, mt_Employee_Name m)) (ret_monthly_totals out))"
    unfolding keys by (rule distinct_group_keys)
next
  assume e: "frames w df = []"
  show "snd (calculate_salary parse w df basic_salary allowance holidays) \<noteq> Inr out'"
  proof
    assume "snd (calculate_salary parse w df basic_salary allowance holidays) = Inr out'"
    then obtain b' a' dw hw es where
      es: "process_rows hw (case holidays of None \<Rightarrow> default_holidays w | Some h \<Rightarrow> h)
         (coerce_columns parse (frames w df)) = Inr es"
      and ne: "es \<noteq> []"
      by (rule calculate_salary_InrE)
    have "length es = length (frames w df)"
      using process_rows_length [OF es] by (simp add: length_coerce_columns)
    with ne e show False
      by simp
  qed
next
  assume e: "frames w df = []" and "salary_in_range b a"
  from salary_in_range_arith [OF this(2)] obtain fixed where
    f: "py_add (Some b) (Some a) = Inr fixed"
    and d: "daily_wage_of fixed = Inr (num_val fixed * 12 / 365)"
    by blast
  show "snd (calculate_salary parse w df (Some b) (Some a) holidays) = Inl KeyError"
    unfolding calculate_salary_snd f d bind_exn_Inr e
    by (simp add: coerce_columns_map)
qed

theorem monthly_keys_complete_witness:
  "snd (calculate_salary ex_parse ex_world 0 (Some (PyInt 36000)) (Some (PyInt 500)) None) = Inr ex_out \<and>
   set (map (\<lambda>m. (mt_Employee_ID m, mt_Employee_Name m)) (ret_monthly_totals ex_out)) =
     {(PyNum 1, PyStr ''Ann''), (PyNum 2, PyStr ''Bob'')} \<and>
   distinct (map (\<lambda>m. (mt_Employee_ID m, mt_Employee_Name m)) (ret_monthly_totals ex_out)) \<and>
   frames ex_world 2 = [] \<and>
   salary_in_range (PyInt 36000) (PyInt 500) \<and>
   snd (calculate_salary ex_parse ex_world 2 (Some (PyInt 36000)) (Some (PyInt 500)) None) = Inl KeyError"
proof -
  have e: "frames ex_world 2 = []"
    by (simp add: ex_world_def)
  have sr: "salary_in_range (PyInt 36000) (PyInt 500)"
    by (rule salary_in_range_PyInt) simp_all
  from monthly_keys_complete [of ex_parse ex_world 2 None None None ex_out ex_out
      "PyInt 36000" "PyInt 500"] e sr
  have k: "snd (calculate_salary ex_parse ex_world 2 (Some (PyInt 36000)) (Some (PyInt 500))
      None) = Inl KeyError"
    by blast
  show ?thesis
    using ex_call e k sr by (simp add: ex_out_def)
qed

text \<open>
  C6 as the specification states it fails: the record at address 1 has the pair
  (3, missing name), and the monthly totals of the call on it are empty.
\<close>

theorem monthly_keys_counterexample:
  "map (\<lambda>r. (Employee_ID r, Employee_Name r)) (frames ex_world 1) = [(PyNum 3, PyNaN)] \<and>
   map_sum id (\<lambda>out. map (\<lambda>m. (mt_Employee_ID m, mt_Employee_Name m)) (ret_monthly_totals out))
     (snd (calculate_salary ex_parse ex_world 1 (Some (PyInt 36000)) (Some (PyInt 500)) None)) = Inr []"
  by (simp add: eval_defs ex_defs)

section \<open>\<^verbatim>\<open>parse_hours\<close> on text\<close>

lemma parse_hours_8_30: "parse_hours (PyStr ''8:30'') = Inr (Fin (17 / 2))"
  by (simp add: parse_hours_def parse_hours_try_def py_int_def string_defs number_defs)

lemma parse_hours_empty: "parse_hours (PyStr '''') = Inr (Fin 0)"
  by (simp add: parse_hours_def parse_hours_try_def strip_def strip_number_def py_float_def)

lemma py_float_garbage: "py_float ''garbage'' = Inl ValueError"
  by (simp add: py_float_def unsigned_float_def lower_def mantissa_def string_defs)

lemma strip_garbage: "strip ''garbage'' = ''garbage''"
  by (simp add: strip_def isspace_def)

lemma parse_hours_garbage: "parse_hours (PyStr ''garbage'') = Inr (Fin 0)"
  by (simp add: parse_hours_def parse_hours_try_def strip_garbage py_float_garbage)

lemma parse_hours_7: "parse_hours (PyNum 7) = Inr (Fin 7)"
  by (simp add: parse_hours_def number_defs)

lemma split_colon_two: "split_colon t = [u, v] \<Longrightarrow> CHR '':'' \<in> set t"
proof (induction t arbitrary: u)
  case Nil
  then show ?case by simp
next
  case (Cons c t)
  then show ?case
    by (cases "c = CHR '':''") (auto split: list.splits)
qed

text \<open>The \<^verbatim>\<open>HH:MM\<close> branch, with the two conversions to float written out.\<close>

lemma parse_hours_hh_mm:
  assumes "split_colon (strip s) = [h, m]" and "py_int h = Inr hh" and "py_int m = Inr mm"
  shows "parse_hours (PyStr s) =
     (if in_float_range (real_of_int hh) \<and> in_float_range (real_of_int mm / 60)
      then Inr (Fin (real_of_int hh + real_of_int mm / 60)) else Inr (Fin 0))"
proof -
  have "CHR '':'' \<in> set (strip s)"
    using assms(1) by (rule split_colon_two)
  then show ?thesis
    using assms by (simp add: parse_hours_def parse_hours_try_def int_truediv_def
        int_to_float_def)
qed

text \<open>A long digit part.\<close>

lemma digits_zeros:
  "digits True acc (replicate n (CHR ''0'')) = Some (acc * 10 ^ n)"
  by (induction n arbitrary: acc) (simp_all add: isdigit_def digit_of_def)

lemma ndigits_zeros: "ndigits (replicate n (CHR ''0'')) = n"
  by (induction n) (simp_all add: ndigits_def isdigit_def)

lemma dropWhile_hd: "xs \<noteq> [] \<Longrightarrow> \<not> P (hd xs) \<Longrightarrow> dropWhile P xs = xs"
  by (cases xs) simp_all

lemma strip_number_id:
  "s \<noteq> [] \<Longrightarrow> \<not> isspace_number (hd s) \<Longrightarrow> \<not> isspace_number (last s) \<Longrightarrow>
   strip_number s = s"
proof -
  assume s: "s \<noteq> []" and h: "\<not> isspace_number (hd s)" and l: "\<not> isspace_number (last s)"
  have 1: "dropWhile isspace_number s = s"
    using s h by (cases s) simp_all
  have "rev s \<noteq> []" and "\<not> isspace_number (hd (rev s))"
    using s l by (simp_all add: hd_rev)
  then have 2: "dropWhile isspace_number (rev s) = rev s"
    by (rule dropWhile_hd)
  show ?thesis
    by (simp add: strip_number_def 1 2)
qed

lemma strip_id:
  "s \<noteq> [] \<Longrightarrow> \<not> isspace (hd s) \<Longrightarrow> \<not> isspace (last s) \<Longrightarrow> strip s = s"
proof -
  assume s: "s \<noteq> []" and h: "\<not> isspace (hd s)" and l: "\<not> isspace (last s)"
  have 1: "dropWhile isspace s = s"
    using s h by (cases s) simp_all
  have "rev s \<noteq> []" and "\<not> isspace (hd (rev s))"
    using s l by (simp_all add: hd_rev)
  then have 2: "dropWhile isspace (rev s) = rev s"
    by (rule dropWhile_hd)
  show ?thesis
    by (simp add: strip_def 1 2)
qed

lemma split_colon_no_colon: "CHR '':'' \<notin> set s \<Longrightarrow> split_colon s = [s]"
  by (induction s) auto

lemma split_colon_append:
  "CHR '':'' \<notin> set h \<Longrightarrow> split_colon (h @ CHR '':'' # m) = h # split_colon m"
  by (induction h) auto

lemma py_int_long: "py_int (CHR ''1'' # replicate 400 (CHR ''0'')) = Inr (10 ^ 400)"
proof -
  let ?s = "CHR ''1'' # replicate 400 (CHR ''0'')"
  have l: "last ?s = CHR ''0''"
    by simp
  have "strip_number ?s = ?s"
    by (rule strip_number_id) (simp_all only: l, simp_all add: isspace_number_def)
  moreover have "digits False 0 ?s = Some (10 ^ 400)"
    by (simp add: isdigit_def digit_of_def digits_zeros)
  moreover have "ndigits ?s = 401"
    using ndigits_zeros [of 400] by (simp add: ndigits_def isdigit_def)
  ultimately show ?thesis
    by (simp add: py_int_def int_digits_def max_str_digits_def)
qed

lemma py_int_30: "py_int ''30'' = Inr 30"
  by (simp add: py_int_def string_defs)

lemma split_colon_long:
  "split_colon (strip ex_long_hours) = [CHR ''1'' # replicate 400 (CHR ''0''), ''30'']"
proof -
  have s: "strip ex_long_hours = ex_long_hours"
    by (rule strip_id) (simp_all add: ex_long_hours_def isspace_def)
  have e: "ex_long_hours = (CHR ''1'' # replicate 400 (CHR ''0'')) @ CHR '':'' # ''30''"
    by (simp add: ex_long_hours_def)
  have "split_colon ((CHR ''1'' # replicate 400 (CHR ''0'')) @ CHR '':'' # ''30'') =
      (CHR ''1'' # replicate 400 (CHR ''0'')) # split_colon ''30''"
    by (rule split_colon_append) simp
  also have "split_colon ''30'' = [''30'']"
    by (rule split_colon_no_colon) simp
  finally have "split_colon ex_long_hours = [CHR ''1'' # replicate 400 (CHR ''0''), ''30'']"
    unfolding e [symmetric] .
  then show ?thesis
    unfolding s .
qed

lemma parse_hours_long: "parse_hours (PyStr ex_long_hours) = Inr (Fin 0)"
  using parse_hours_hh_mm [OF split_colon_long py_int_long py_int_30]
  by (simp add: number_defs)

text \<open>
  C4 (as the code has it). \<open>parse_hours("8:30") = 8.5\<close>, \<open>parse_hours("") = 0.0\<close>,
  \<open>parse_hours(7) = 7.0\<close> and \<open>parse_hours("garbage") = 0.0\<close>. More generally a text
  with a colon whose two parts are integers \<open>HH\<close> and \<open>MM\<close> gives \<open>HH + MM / 60\<close> when
  \<open>HH\<close> and \<open>MM / 60\<close> are within the range of float, and \<open>0.0\<close> when they are not,
  the \<open>OverflowError\<close> being caught like every other failure of the text; a number
  within the range of float is returned unchanged; and a text without colon that is no
  number gives \<open>0.0\<close>.
\<close>

theorem parse_hours_examples:
  "parse_hours (PyStr ''8:30'') = Inr (Fin 8.5) \<and>
   parse_hours (PyStr '''') = Inr (Fin 0) \<and>
   parse_hours (PyNum 7) = Inr (Fin 7) \<and>
   parse_hours (PyStr ''garbage'') = Inr (Fin 0) \<and>
   (split_colon (strip s) = [h, m] \<and> py_int h = Inr hh \<and> py_int m = Inr mm \<and>
    in_float_range (real_of_int hh) \<and> in_float_range (real_of_int mm / 60) \<longrightarrow>
      parse_hours (PyStr s) = Inr (Fin (real_of_int hh + real_of_int mm / 60))) \<and>
   (split_colon (strip s) = [h, m] \<and> py_int h = Inr hh \<and> py_int m = Inr mm \<and>
    \<not> (in_float_range (real_of_int hh) \<and> in_float_range (real_of_int mm / 60)) \<longrightarrow>
      parse_hours (PyStr s) = Inr (Fin 0)) \<and>
   (in_float_range x \<longrightarrow> parse_hours (PyNum x) = Inr (Fin x)) \<and>
   (CHR '':'' \<notin> set (strip s') \<and> py_float (strip s') = Inl e \<longrightarrow>
      parse_hours (PyStr s') = Inr (Fin 0))"
proof (intro conjI impI)
  show "parse_hours (PyStr ''8:30'') = Inr (Fin 8.5)"
    by (simp add: parse_hours_8_30)
  show "parse_hours (PyStr '''') = Inr (Fin 0)"
    by (rule parse_hours_empty)
  show "parse_hours (PyNum 7) = Inr (Fin 7)"
    by (rule parse_hours_7)
  show "parse_hours (PyStr ''garbage'') = Inr (Fin 0)"
    by (rule parse_hours_garbage)
next
  assume a: "split_colon (strip s) = [h, m] \<and> py_int h = Inr hh \<and> py_int m = Inr mm \<and>
    in_float_range (real_of_int hh) \<and> in_float_range (real_of_int mm / 60)"
  then have "parse_hours (PyStr s) =
     (if in_float_range (real_of_int hh) \<and> in_float_range (real_of_int mm / 60)
      then Inr (Fin (real_of_int hh + real_of_int mm / 60)) else Inr (Fin 0))"
    using parse_hours_hh_mm by blast
  then show "parse_hours (PyStr s) = Inr (Fin (real_of_int hh + real_of_int mm / 60))"
    using a by (simp only: simp_thms if_True)
next
  assume a: "split_colon (strip s) = [h, m] \<and> py_int h = Inr hh \<and> py_int m = Inr mm \<and>
    \<not> (in_float_range (real_of_int hh) \<and> in_float_range (real_of_int mm / 60))"
  then have "parse_hours (PyStr s) =
     (if in_float_range (real_of_int hh) \<and> in_float_range (real_of_int mm / 60)
      then Inr (Fin (real_of_int hh + real_of_int mm / 60)) else Inr (Fin 0))"
    using parse_hours_hh_mm by blast
  moreover have "\<not> (in_float_range (real_of_int hh) \<and> in_float_range (real_of_int mm / 60))"
    using a by blast
  ultimately show "parse_hours (PyStr s) = Inr (Fin 0)"
    by (simp only: if_False)
next
  assume "in_float_range x"
  then show "parse_hours (PyNum x) = Inr (Fin x)"
    by (rule parse_hours_num)
next
  assume "CHR '':'' \<notin> set (strip s') \<and> py_float (strip s') = Inl e"
  then show "parse_hours (PyStr s') = Inr (Fin 0)"
    by (simp add: parse_hours_def parse_hours_try_def)
qed

theorem parse_hours_examples_witness:
  "split_colon (strip '' 2:15 '') = [''2'', ''15''] \<and>
   py_int ''2'' = Inr 2 \<and> py_int ''15'' = Inr 15 \<and>
   in_float_range (real_of_int 2) \<and> in_float_range (real_of_int 15 / 60) \<and>
   parse_hours (PyStr '' 2:15 '') = Inr (Fin (real_of_int 2 + real_of_int 15 / 60)) \<and>
   split_colon (strip ex_long_hours) = [CHR ''1'' # replicate 400 (CHR ''0''), ''30''] \<and>
   py_int (CHR ''1'' # replicate 400 (CHR ''0'')) = Inr (10 ^ 400) \<and>
   py_int ''30'' = Inr 30 \<and>
   \<not> in_float_range (real_of_int (10 ^ 400)) \<and>
   parse_hours (PyStr ex_long_hours) = Inr (Fin 0) \<and>
   in_float_range 7 \<and> parse_hours (PyNum 7) = Inr (Fin 7) \<and>
   CHR '':'' \<notin> set (strip ''garbage'') \<and>
   py_float (strip ''garbage'') = Inl ValueError \<and>
   parse_hours (PyStr ''garbage'') = Inr (Fin 0)"
proof -
  have 1: "split_colon (strip '' 2:15 '') = [''2'', ''15'']"
    by (simp add: strip_def isspace_def)
  have 2: "py_int ''2'' = Inr 2"
    by (simp add: py_int_def string_defs)
  have 3: "py_int ''15'' = Inr 15"
    by (simp add: py_int_def string_defs)
  have r2: "in_float_range (real_of_int 2)" and r15: "in_float_range (real_of_int 15 / 60)"
    and r7: "in_float_range 7"
    by (simp_all add: number_defs)
  have 4: "CHR '':'' \<notin> set (strip ''garbage'')"
    by (simp add: strip_garbage)
  have 5: "py_float (strip ''garbage'') = Inl ValueError"
    by (simp add: strip_garbage py_float_garbage)
  have big: "\<not> in_float_range (real_of_int (10 ^ 400))"
    by (simp add: number_defs)
  note t = parse_hours_examples [of "'' 2:15 ''" "''2''" "''15''" 2 15 7 "''garbage''"
      ValueError]
  note u = parse_hours_examples [of ex_long_hours "CHR ''1'' # replicate 400 (CHR ''0'')"
      "''30''" "10 ^ 400" 30 7 "''garbage''" ValueError]
  have 6: "parse_hours (PyStr '' 2:15 '') = Inr (Fin (real_of_int 2 + real_of_int 15 / 60))"
    using t 1 2 3 r2 r15 by blast
  have 7: "parse_hours (PyStr ''garbage'') = Inr (Fin 0)"
    using t 4 5 by blast
  have 8: "parse_hours (PyNum 7) = Inr (Fin 7)"
    using t r7 by blast
  have 9: "parse_hours (PyStr ex_long_hours) = Inr (Fin 0)"
    using u split_colon_long py_int_long py_int_30 big by blast
  show ?thesis
    by (intro conjI) (rule 1, rule 2, rule 3, rule r2, rule r15, rule 6,
        rule split_colon_long, rule py_int_long, rule py_int_30, rule big, rule 9,
        rule r7, rule 8, rule 4, rule 5, rule 7)
qed

text \<open>
  C4 as the specification states it fails: the two parts of the text \<open>ex_long_hours\<close>
  parse as the integers \<open>10\<^sup>4\<^sup>0\<^sup>0\<close> and 30, and \<open>parse_hours\<close> gives \<open>0.0\<close> on it,
  which is not \<open>10\<^sup>4\<^sup>0\<^sup>0 + 30 / 60\<close>.
\<close>

theorem parse_hours_long_counterexample:
  "split_colon (strip ex_long_hours) = [CHR ''1'' # replicate 400 (CHR ''0''), ''30''] \<and>
   py_int (CHR ''1'' # replicate 400 (CHR ''0'')) = Inr (10 ^ 400) \<and>
   py_int ''30'' = Inr 30 \<and>
   parse_hours (PyStr ex_long_hours) = Inr (Fin 0) \<and>
   Fin 0 \<noteq> Fin (real_of_int (10 ^ 400) + real_of_int 30 / 60)"
proof -
  have "(0::real) \<noteq> real_of_int (10 ^ 400) + real_of_int 30 / 60"
    by simp
  then have "Fin 0 \<noteq> Fin (real_of_int (10 ^ 400) + real_of_int 30 / 60)"
    by (simp only: pyfloat.inject not_False_eq_True)
  with split_colon_long py_int_long py_int_30 parse_hours_long show ?thesis
    by (intro conjI)
qed

section \<open>The sign of what \<^verbatim>\<open>parse_hours\<close> returns\<close>

lemma set_strip: "set (strip s) \<subseteq> set s"
proof -
  have "set (dropWhile isspace (rev (dropWhile isspace s))) \<subseteq> set (rev (dropWhile isspace s))"
    by (rule set_dropWhileD [THEN subsetI])
  also have "\<dots> \<subseteq> set s"
    using set_dropWhileD [of _ isspace s] by auto
  finally show ?thesis
    by (simp add: strip_def)
qed

lemma set_strip_number: "set (strip_number s) \<subseteq> set s"
proof -
  have "set (dropWhile isspace_number (rev (dropWhile isspace_number s))) \<subseteq>
      set (rev (dropWhile isspace_number s))"
    by (rule set_dropWhileD [THEN subsetI])
  also have "\<dots> \<subseteq> set s"
    using set_dropWhileD [of _ isspace_number s] by auto
  finally show ?thesis
    by (simp add: strip_number_def)
qed

lemma split_colon_set: "p \<in> set (split_colon s) \<Longrightarrow> set p \<subseteq> set s"
proof (induction s arbitrary: p)
  case Nil
  then show ?case by simp
next
  case (Cons c s)
  show ?case
  proof (cases "c = CHR '':''")
    case True
    with Cons show ?thesis by auto
  next
    case False
    show ?thesis
    proof (cases "split_colon s")
      case Nil
      with Cons.prems False show ?thesis by simp
    next
      case sc: (Cons x xs)
      from Cons.prems False sc have "p = c # x \<or> p \<in> set xs"
        by simp
      then show ?thesis
      proof
        assume "p = c # x"
        moreover have "set x \<subseteq> set s"
          using Cons.IH [of x] sc by simp
        ultimately show ?thesis by auto
      next
        assume "p \<in> set xs"
        then have "set p \<subseteq> set s"
          using Cons.IH [of p] sc by simp
        then show ?thesis by auto
      qed
    qed
  qed
qed

lemma py_int_nonneg:
  assumes "CHR ''-'' \<notin> set s" and "py_int s = Inr n"
  shows "0 \<le> n"
proof (cases "strip_number s")
  case Nil
  with assms(2) show ?thesis
    by (simp add: py_int_def)
next
  case (Cons c r)
  have "c \<in> set s"
    using set_strip_number [of s] Cons by auto
  with assms(1) have "c \<noteq> CHR ''-''"
    by auto
  with assms(2) Cons show ?thesis
    by (auto simp: py_int_def split: if_splits option.splits)
qed

lemma mantissa_nonneg: "mantissa s = Some x \<Longrightarrow> 0 \<le> x"
  by (auto simp: mantissa_def split: prod.splits option.splits if_splits)

lemma scale10_nonneg: "0 \<le> x \<Longrightarrow> 0 \<le> scale10 x k"
  by (simp add: scale10_def)

lemma unsigned_float_nonneg: "unsigned_float s = Some r \<Longrightarrow> is_nonneg r \<or> r = NaN"
  by (auto simp: unsigned_float_def Let_def scale10_nonneg dest!: mantissa_nonneg
      split: if_splits prod.splits option.splits)

lemma unsigned_float_NaN: "unsigned_float s = Some NaN \<Longrightarrow> map lower s = ''nan''"
  by (auto simp: unsigned_float_def Let_def split: if_splits prod.splits option.splits)

lemma py_float_nonneg:
  assumes "CHR ''-'' \<notin> set s" and "py_float s = Inr r"
  shows "(is_nonneg r \<or> r = NaN) \<and>
    (r = NaN \<longrightarrow> map lower (strip_number s) = ''nan'' \<or> map lower (strip_number s) = ''+nan'')"
proof (cases "strip_number s")
  case Nil
  with assms(2) show ?thesis
    by (simp add: py_float_def)
next
  case (Cons c r')
  have "c \<in> set s"
    using set_strip_number [of s] Cons by auto
  with assms(1) have c: "c \<noteq> CHR ''-''"
    by auto
  show ?thesis
  proof (cases "c = CHR ''+''")
    case True
    with assms(2) Cons have u: "unsigned_float r' = Some r"
      by (auto simp: py_float_def split: option.splits)
    have "map lower (c # r') = ''+nan''" if "r = NaN"
      using unsigned_float_NaN [of r'] u that True by (simp add: lower_def)
    with unsigned_float_nonneg [OF u] show ?thesis
      by (simp add: Cons)
  next
    case False
    with assms(2) Cons c have u: "unsigned_float (c # r') = Some r"
      by (auto simp: py_float_def split: option.splits)
    have "map lower (c # r') = ''nan''" if "r = NaN"
      using unsigned_float_NaN [of "c # r'"] u that by simp
    with unsigned_float_nonneg [OF u] show ?thesis
      by (simp add: Cons)
  qed
qed

text \<open>What \<^verbatim>\<open>strip\<close> leaves has no white space at its ends, so the numbers' own skipping
  finds nothing to skip in a text that has no colon.\<close>

lemma dropWhile_last:
  "dropWhile P xs \<noteq> [] \<Longrightarrow> last (dropWhile P xs) = last xs"
  by (induction xs) (auto split: if_splits)

lemma strip_ends:
  assumes "strip s \<noteq> []"
  shows "\<not> isspace (hd (strip s))" and "\<not> isspace (last (strip s))"
proof -
  let ?a = "dropWhile isspace s"
  let ?b = "dropWhile isspace (rev ?a)"
  have s: "strip s = rev ?b"
    by (simp add: strip_def)
  have b: "?b \<noteq> []"
    using assms by (simp add: s)
  have a: "?a \<noteq> []"
  proof
    assume e: "?a = []"
    have "?b = []"
      unfolding e by simp
    with b show False
      by contradiction
  qed
  have "last (strip s) = hd ?b"
    using b by (simp add: s last_rev)
  then show "\<not> isspace (last (strip s))"
    using hd_dropWhile [OF b] by simp
  have "hd (strip s) = last ?b"
    using b by (simp add: s hd_rev)
  also have "\<dots> = last (rev ?a)"
    using b by (rule dropWhile_last)
  also have "\<dots> = hd ?a"
    using a by (simp add: last_rev)
  finally show "\<not> isspace (hd (strip s))"
    using hd_dropWhile [OF a] by simp
qed

lemma isspace_number_isspace: "isspace_number c \<Longrightarrow> isspace c"
  by (auto simp: isspace_number_def isspace_def Let_def)

lemma strip_number_strip: "strip_number (strip s) = strip s"
proof (cases "strip s = []")
  case True
  then show ?thesis
    by (simp add: strip_number_def)
next
  case False
  show ?thesis
    using False strip_ends [OF False] isspace_number_isspace
    by (intro strip_number_id) blast+
qed

lemma parse_hours_no_minus:
  assumes "CHR ''-'' \<notin> set s"
  shows "\<exists>r. parse_hours (PyStr s) = Inr r \<and> (is_nonneg r \<or> r = NaN) \<and>
     (r = NaN \<longrightarrow> map lower (strip s) = ''nan'' \<or> map lower (strip s) = ''+nan'')"
proof (cases "parse_hours_try (PyStr s)")
  case (Inl e)
  then have "parse_hours (PyStr s) = Inr (Fin 0)"
    by (simp add: parse_hours_def)
  then show ?thesis
    by simp
next
  case (Inr r)
  then have p: "parse_hours (PyStr s) = Inr r"
    by (simp add: parse_hours_def)
  have m: "CHR ''-'' \<notin> set (strip s)"
    using assms set_strip [of s] by auto
  show ?thesis
  proof (cases "CHR '':'' \<in> set (strip s)")
    case True
    with Inr obtain h m' hh mm q x where
      sp: "split_colon (strip s) = [h, m']"
      and hh: "py_int h = Inr hh" and mm: "py_int m' = Inr mm"
      and q: "int_truediv mm 60 = Inr q" and x: "int_to_float hh = Inr x"
      and r: "r = Fin (x + q)"
      by (auto simp: parse_hours_try_def Let_def split: list.splits sum.splits)
    have "set h \<subseteq> set (strip s)" and "set m' \<subseteq> set (strip s)"
      using split_colon_set [of _ "strip s"] sp by simp_all
    then have "0 \<le> hh" and "0 \<le> mm"
      using m py_int_nonneg [OF _ hh] py_int_nonneg [OF _ mm] by auto
    moreover have "x = real_of_int hh" and "q = real_of_int mm / 60"
      using q x by (auto simp: int_truediv_def int_to_float_def split: if_splits)
    ultimately have "0 \<le> x + q"
      by simp
    then show ?thesis
      using p r by simp
  next
    case False
    with Inr have f: "py_float (strip s) = Inr r"
      by (simp add: parse_hours_try_def Let_def)
    from py_float_nonneg [OF m f] p show ?thesis
      by (simp add: strip_number_strip)
  qed
qed

text \<open>
  C5 (as the code has it). On every value other than an int beyond the range of float
  \<open>parse_hours\<close> returns a float and raises nothing. The float is \<open>0.0\<close> for a missing
  value and for every value whose text fails to parse, and a number within the range of
  float is returned as it is. So the result is not negative for a missing value, for a
  number that is not negative, for a text that fails to parse, and for every text
  without a minus sign, except that the text \<^verbatim>\<open>nan\<close> gives NaN; a negative number is
  returned unchanged. Nothing is said here of an int beyond the range of float.
\<close>

theorem parse_hours_total:
  "(float_cell v \<longrightarrow> (\<exists>r. parse_hours v = Inr r)) \<and>
   (pd_isna v \<longrightarrow> parse_hours v = Inr (Fin 0)) \<and>
   (v = PyNum x \<and> in_float_range x \<longrightarrow> parse_hours v = Inr (Fin x)) \<and>
   (v = PyNum x \<and> in_float_range x \<and> 0 \<le> x \<longrightarrow>
      (\<exists>r. parse_hours v = Inr r \<and> is_nonneg r)) \<and>
   ((\<forall>y. v \<noteq> PyNum y) \<and> parse_hours_try v = Inl e \<longrightarrow> parse_hours v = Inr (Fin 0)) \<and>
   (v = PyStr s \<and> CHR ''-'' \<notin> set s \<longrightarrow>
      (\<exists>r. parse_hours v = Inr r \<and> (is_nonneg r \<or> r = NaN) \<and>
         (r = NaN \<longrightarrow> map lower (strip s) = ''nan'' \<or> map lower (strip s) = ''+nan'')))"
proof (intro conjI impI)
  assume "float_cell v"
  then show "\<exists>r. parse_hours v = Inr r"
    by (rule parse_hours_returns)
next
  assume "pd_isna v"
  then show "parse_hours v = Inr (Fin 0)"
    by (rule parse_hours_isna)
next
  assume "v = PyNum x \<and> in_float_range x"
  then show "parse_hours v = Inr (Fin x)"
    by (simp add: parse_hours_num)
next
  assume "v = PyNum x \<and> in_float_range x \<and> 0 \<le> x"
  then show "\<exists>r. parse_hours v = Inr r \<and> is_nonneg r"
    by (simp add: parse_hours_num)
next
  assume a: "(\<forall>y. v \<noteq> PyNum y) \<and> parse_hours_try v = Inl e"
  then show "parse_hours v = Inr (Fin 0)"
    by (cases v) (simp_all add: parse_hours_def)
next
  assume "v = PyStr s \<and> CHR ''-'' \<notin> set s"
  then show "\<exists>r. parse_hours v = Inr r \<and> (is_nonneg r \<or> r = NaN) \<and>
         (r = NaN \<longrightarrow> map lower (strip s) = ''nan'' \<or> map lower (strip s) = ''+nan'')"
    using parse_hours_no_minus [of s] by blast
qed

theorem parse_hours_total_witness:
  "float_cell (PyStr ''8:30'') \<and> parse_hours (PyStr ''8:30'') = Inr (Fin 8.5) \<and>
   pd_isna PyNaN \<and> parse_hours PyNaN = Inr (Fin 0) \<and>
   in_float_range 7 \<and> (0::real) \<le> 7 \<and> parse_hours (PyNum 7) = Inr (Fin 7) \<and>
   is_nonneg (Fin 7) \<and>
   parse_hours_try (PyStr ''garbage'') = Inl ValueError \<and>
   parse_hours (PyStr ''garbage'') = Inr (Fin 0) \<and>
   CHR ''-'' \<notin> set ''8:30'' \<and> is_nonneg (Fin 8.5) \<and>
   map lower (strip ''8:30'') \<noteq> ''nan'' \<and> map lower (strip ''8:30'') \<noteq> ''+nan''"
proof -
  have 0: "float_cell (PyStr ''8:30'')"
    by (simp add: float_cell_def)
  have 1: "pd_isna PyNaN" by simp
  have 2: "parse_hours PyNaN = Inr (Fin 0)"
    using parse_hours_total [of PyNaN 0 ValueError "[]"] 1 by blast
  have 3: "(0::real) \<le> 7" by simp
  have r7: "in_float_range 7"
    by (simp add: number_defs)
  have 4: "parse_hours (PyNum 7) = Inr (Fin 7)"
    using parse_hours_total [of "PyNum 7" 7 ValueError "[]"] r7 by blast
  have "\<exists>r. parse_hours (PyNum 7) = Inr r \<and> is_nonneg r"
    using parse_hours_total [of "PyNum 7" 7 ValueError "[]"] r7 3 by blast
  then have nn: "is_nonneg (Fin 7)"
    using 4 by simp
  have 5: "parse_hours_try (PyStr ''garbage'') = Inl ValueError"
    by (simp add: parse_hours_try_def strip_garbage py_float_garbage)
  have 6: "parse_hours (PyStr ''garbage'') = Inr (Fin 0)"
    using parse_hours_total [of "PyStr ''garbage''" 0 ValueError "[]"] 5 by blast
  have 7: "CHR ''-'' \<notin> set ''8:30''"
    by simp
  note t = parse_hours_total [of "PyStr ''8:30''" 0 ValueError "''8:30''"]
  from t 0 obtain r where r: "parse_hours (PyStr ''8:30'') = Inr r"
    by blast
  have 8: "parse_hours (PyStr ''8:30'') = Inr (Fin 8.5)"
    using r by (simp add: parse_hours_8_30)
  from t 7 obtain r' where "parse_hours (PyStr ''8:30'') = Inr r'"
    and "is_nonneg r' \<or> r' = NaN"
    by blast
  with 8 have 9: "is_nonneg (Fin 8.5)"
    by auto
  have 10: "map lower (strip ''8:30'') \<noteq> ''nan''" "map lower (strip ''8:30'') \<noteq> ''+nan''"
    by (simp_all add: strip_def isspace_def lower_def)
  show ?thesis
    by (intro conjI) (rule 0, rule 8, rule 1, rule 2, rule r7, rule 3, rule 4, rule nn,
        rule 5, rule 6, rule 7, rule 9, rule 10(1), rule 10(2))
qed

text \<open>
  C5 as the specification states it fails: \<open>parse_hours(-3)\<close> is \<open>-3.0\<close>, which is
  negative.
\<close>

theorem parse_hours_negative_counterexample:
  "parse_hours (PyNum (- 3)) = Inr (Fin (- 3)) \<and> \<not> is_nonneg (Fin (- 3))"
  by (simp add: parse_hours_def number_defs)

lemma calculate_salary_result_cong:
  assumes "frames w1 p1 = frames w2 p2" and "default_holidays w1 = default_holidays w2"
  shows "snd (calculate_salary parse w1 p1 basic_salary allowance holidays) =
         snd (calculate_salary parse w2 p2 basic_salary allowance holidays)"
  unfolding calculate_salary_snd assms ..

text \<open>
  C10. Every call overwrites the caller's table in place, whether it returns or raises:
  each cell of the Date column becomes the coerced timestamp (\<open>NaT\<close> when the cell
  cannot be read), each cell of the In time and Out time columns becomes the time of
  day of the coerced timestamp (\<open>NaT\<close> when it cannot be read), and every other column
  of the table stays as it was, as do all other tables and the default holidays.
\<close>

theorem input_table_overwritten:
  "frames (fst (calculate_salary parse w df basic_salary allowance holidays)) df =
     map (\<lambda>r. r\<lparr>Date := to_datetime parse (Date r),
                In_time := dt_time (to_datetime parse (In_time r)),
                Out_time := dt_time (to_datetime parse (Out_time r))\<rparr>) (frames w df) \<and>
   (p \<noteq> df \<longrightarrow>
      frames (fst (calculate_salary parse w df basic_salary allowance holidays)) p =
        frames w p) \<and>
   default_holidays (fst (calculate_salary parse w df basic_salary allowance holidays)) =
     default_holidays w \<and>
   (i < length (frames w df) \<longrightarrow>
      (let r = frames w df ! i;
           r' = frames (fst (calculate_salary parse w df basic_salary allowance holidays)) df ! i
       in Employee_ID r' = Employee_ID r \<and>
          Employee_Name r' = Employee_Name r \<and>
          Total_Working_hours r' = Total_Working_hours r \<and>
          Extra_Working_Time r' = Extra_Working_Time r \<and>
          Other_columns r' = Other_columns r \<and>
          Date r' = to_datetime parse (Date r) \<and>
          (Date r' = PyNaT \<or> (\<exists>d t. Date r' = PyTimestamp d t)) \<and>
          In_time r' = dt_time (to_datetime parse (In_time r)) \<and>
          (In_time r' = PyNaT \<or> (\<exists>t. In_time r' = PyTime t)) \<and>
          Out_time r' = dt_time (to_datetime parse (Out_time r)) \<and>
          (Out_time r' = PyNaT \<or> (\<exists>t. Out_time r' = PyTime t))))"
proof (intro conjI impI)
  show "frames (fst (calculate_salary parse w df basic_salary allowance holidays)) df =
     map (\<lambda>r. r\<lparr>Date := to_datetime parse (Date r),
                In_time := dt_time (to_datetime parse (In_time r)),
                Out_time := dt_time (to_datetime parse (Out_time r))\<rparr>) (frames w df)"
    by (simp add: calculate_salary_world coerce_columns_map)
  show "default_holidays (fst (calculate_salary parse w df basic_salary allowance holidays)) =
     default_holidays w"
    by (simp add: calculate_salary_world)
next
  assume "p \<noteq> df"
  then show "frames (fst (calculate_salary parse w df basic_salary allowance holidays)) p =
        frames w p"
    by (simp add: calculate_salary_world)
next
  assume i: "i < length (frames w df)"
  have t: "dt_time (to_datetime parse v) = PyNaT \<or> (\<exists>t. dt_time (to_datetime parse v) = PyTime t)"
    for v
    using to_datetime_cases [of parse v] by auto
  have d: "to_datetime parse v = PyNaT \<or> (\<exists>d t. to_datetime parse v = PyTimestamp d t)"
    for v
    using to_datetime_cases [of parse v] by auto
  show "let r = frames w df ! i;
           r' = frames (fst (calculate_salary parse w df basic_salary allowance holidays)) df ! i
       in Employee_ID r' = Employee_ID r \<and>
          Employee_Name r' = Employee_Name r \<and>
          Total_Working_hours r' = Total_Working_hours r \<and>
          Extra_Working_Time r' = Extra_Working_Time r \<and>
          Other_columns r' = Other_columns r \<and>
          Date r' = to_datetime parse (Date r) \<and>
          (Date r' = PyNaT \<or> (\<exists>d t. Date r' = PyTimestamp d t)) \<and>
          In_time r' = dt_time (to_datetime parse (In_time r)) \<and>
          (In_time r' = PyNaT \<or> (\<exists>t. In_time r' = PyTime t)) \<and>
          Out_time r' = dt_time (to_datetime parse (Out_time r)) \<and>
          (Out_time r' = PyNaT \<or> (\<exists>t. Out_time r' = PyTime t))"
    using i t d by (simp add: calculate_salary_world coerce_columns_nth Let_def)
qed

theorem input_table_overwritten_witness:
  "(1::nat) \<noteq> 0 \<and>
   frames (fst (calculate_salary ex_parse ex_world 0 (Some (PyInt 36000)) (Some (PyInt 500)) None)) 1 =
     frames ex_world 1 \<and>
   (0::nat) < length (frames ex_world 0) \<and>
   Date (frames (fst (calculate_salary ex_parse ex_world 0 (Some (PyInt 36000)) (Some (PyInt 500)) None)) 0 ! 0) =
     PyTimestamp 738890 0 \<and>
   In_time (frames (fst (calculate_salary ex_parse ex_world 0 (Some (PyInt 36000)) (Some (PyInt 500)) None)) 0 ! 0) =
     PyTime 32400 \<and>
   Total_Working_hours
     (frames (fst (calculate_salary ex_parse ex_world 0 (Some (PyInt 36000)) (Some (PyInt 500)) None)) 0 ! 0) =
     Some (PyNum 8)"
proof -
  have l: "(0::nat) < length (frames ex_world 0)"
    by (simp add: ex_frames_0)
  note t = input_table_overwritten [of ex_parse ex_world 0 "Some (PyInt 36000)" "Some (PyInt 500)" None 1 0]
  from t l show ?thesis
    by (simp add: Let_def ex_frames_0 ex_row_fri_def to_datetime_def)
qed

section \<open>A second call on the same table\<close>

lemma to_datetime_idem: "to_datetime parse (to_datetime parse v) = to_datetime parse v"
  using to_datetime_cases [of parse v] by (auto simp: to_datetime_def)

lemma rerun_entry:
  assumes es1: "process_rows hw hs (coerce_columns parse df) = Inr es1"
    and es2: "process_rows hw hs (coerce_columns parse (coerce_columns parse df)) = Inr es2"
    and i: "i < length df"
  shows "es2 ! i = (es1 ! i)\<lparr>bd_In_Time := bd_In_Time (es2 ! i),
                              bd_Out_Time := bd_Out_Time (es2 ! i)\<rparr>"
proof -
  let ?c = "coerce_columns parse df"
  have i': "i < length ?c"
    using i by (simp add: length_coerce_columns)
  have c: "?c ! i = (df ! i)\<lparr>Date := to_datetime parse (Date (df ! i)),
              In_time := dt_time (to_datetime parse (In_time (df ! i))),
              Out_time := dt_time (to_datetime parse (Out_time (df ! i)))\<rparr>"
    using i by (rule coerce_columns_nth)
  from entry_of_row [OF es1 i] obtain th eh where
    th: "parse_hours (row_get (Total_Working_hours (df ! i))) = Inr th"
    and eh: "parse_hours (row_get (Extra_Working_Time (df ! i))) = Inr eh"
    and e1: "es1 ! i =
             \<lparr> bd_Employee_ID = Employee_ID (df ! i),
               bd_Employee_Name = Employee_Name (df ! i),
               bd_Date = (case to_datetime parse (Date (df ! i)) of
                            PyTimestamp d t \<Rightarrow> PyDate d
                          | _ \<Rightarrow> PyNaT),
               bd_In_Time = dt_time (to_datetime parse (In_time (df ! i))),
               bd_Out_Time = dt_time (to_datetime parse (Out_time (df ! i))),
               bd_Total_Hours = th,
               bd_Extra_Hours = eh,
               bd_Daily_Pay =
                 py_round
                   (fadd
                      (fmul (fmul th (Fin hw))
                         (Fin (if (case to_datetime parse (Date (df ! i)) of
                                     PyTimestamp d t \<Rightarrow> (d + 6) mod 7 = 4 \<or> d \<in> set hs
                                   | _ \<Rightarrow> False)
                               then 3 / 2 else 1)))
                      (fmul eh (Fin hw))) 2 \<rparr>"
    by blast
  from entry_of_row [OF es2 i'] obtain th' eh' where
    th': "parse_hours (row_get (Total_Working_hours (?c ! i))) = Inr th'"
    and eh': "parse_hours (row_get (Extra_Working_Time (?c ! i))) = Inr eh'"
    and e2: "es2 ! i =
             \<lparr> bd_Employee_ID = Employee_ID (?c ! i),
               bd_Employee_Name = Employee_Name (?c ! i),
               bd_Date = (case to_datetime parse (Date (?c ! i)) of
                            PyTimestamp d t \<Rightarrow> PyDate d
                          | _ \<Rightarrow> PyNaT),
               bd_In_Time = dt_time (to_datetime parse (In_time (?c ! i))),
               bd_Out_Time = dt_time (to_datetime parse (Out_time (?c ! i))),
               bd_Total_Hours = th',
               bd_Extra_Hours = eh',
               bd_Daily_Pay =
                 py_round
                   (fadd
                      (fmul (fmul th' (Fin hw))
                         (Fin (if (case to_datetime parse (Date (?c ! i)) of
                                     PyTimestamp d t \<Rightarrow> (d + 6) mod 7 = 4 \<or> d \<in> set hs
                                   | _ \<Rightarrow> False)
                               then 3 / 2 else 1)))
                      (fmul eh' (Fin hw))) 2 \<rparr>"
    by blast
  have "th' = th" and "eh' = eh"
    using th th' eh eh' by (simp_all add: c)
  then show ?thesis
    by (simp add: e1 e2 c to_datetime_idem)
qed

lemma rerun_view:
  assumes es1: "process_rows hw hs (coerce_columns parse df) = Inr es1"
    and es2: "process_rows hw hs (coerce_columns parse (coerce_columns parse df)) = Inr es2"
  shows "map (\<lambda>e. (group_key e, bd_Total_Hours e, bd_Extra_Hours e, bd_Daily_Pay e, bd_Date e)) es2 =
         map (\<lambda>e. (group_key e, bd_Total_Hours e, bd_Extra_Hours e, bd_Daily_Pay e, bd_Date e)) es1"
proof (rule nth_equalityI)
  have l1: "length es1 = length df"
    using process_rows_length [OF es1] by (simp add: length_coerce_columns)
  have l2: "length es2 = length df"
    using process_rows_length [OF es2] by (simp add: length_coerce_columns)
  show "length (map (\<lambda>e. (group_key e, bd_Total_Hours e, bd_Extra_Hours e, bd_Daily_Pay e, bd_Date e)) es2) =
        length (map (\<lambda>e. (group_key e, bd_Total_Hours e, bd_Extra_Hours e, bd_Daily_Pay e, bd_Date e)) es1)"
    by (simp add: l1 l2)
  fix i
  assume "i < length (map (\<lambda>e. (group_key e, bd_Total_Hours e, bd_Extra_Hours e, bd_Daily_Pay e, bd_Date e)) es2)"
  then have i: "i < length df"
    by (simp add: l2)
  have e: "es2 ! i = (es1 ! i)\<lparr>bd_In_Time := bd_In_Time (es2 ! i),
                              bd_Out_Time := bd_Out_Time (es2 ! i)\<rparr>"
    using es1 es2 i by (rule rerun_entry)
  have "(\<lambda>e. (group_key e, bd_Total_Hours e, bd_Extra_Hours e, bd_Daily_Pay e, bd_Date e)) (es2 ! i) =
        (\<lambda>e. (group_key e, bd_Total_Hours e, bd_Extra_Hours e, bd_Daily_Pay e, bd_Date e)) (es1 ! i)"
    using arg_cong [OF e, of bd_Employee_ID] arg_cong [OF e, of bd_Employee_Name]
      arg_cong [OF e, of bd_Total_Hours] arg_cong [OF e, of bd_Extra_Hours]
      arg_cong [OF e, of bd_Daily_Pay] arg_cong [OF e, of bd_Date]
    by (simp add: group_key_def)
  then show "map (\<lambda>e. (group_key e, bd_Total_Hours e, bd_Extra_Hours e, bd_Daily_Pay e, bd_Date e)) es2 ! i =
        map (\<lambda>e. (group_key e, bd_Total_Hours e, bd_Extra_Hours e, bd_Daily_Pay e, bd_Date e)) es1 ! i"
    using i by (simp add: l1 l2)
qed

lemma map_filter_view:
  "map (\<lambda>e. (key e, g e)) xs = map (\<lambda>e. (key e, g e)) ys \<Longrightarrow>
   map g (filter (\<lambda>e. key e = k) xs) = map g (filter (\<lambda>e. key e = k) ys)"
proof (induction xs arbitrary: ys)
  case Nil
  then show ?case by simp
next
  case (Cons x xs)
  then obtain y ys' where ys: "ys = y # ys'"
    by (cases ys) auto
  with Cons.prems have "key x = key y" "g x = g y"
    and "map (\<lambda>e. (key e, g e)) xs = map (\<lambda>e. (key e, g e)) ys'"
    by simp_all
  then show ?case
    using Cons.IH [of ys'] by (simp add: ys)
qed

lemma rerun_totals:
  assumes v: "map (\<lambda>e. (group_key e, bd_Total_Hours e, bd_Extra_Hours e, bd_Daily_Pay e, bd_Date e)) es2 =
         map (\<lambda>e. (group_key e, bd_Total_Hours e, bd_Extra_Hours e, bd_Daily_Pay e, bd_Date e)) es1"
  shows "map (agg_group es2) (group_keys es2) = map (agg_group es1) (group_keys es1)"
    and "map bd_Daily_Pay es2 = map bd_Daily_Pay es1"
    and "map bd_Date es2 = map bd_Date es1"
proof -
  have k: "map group_key es2 = map group_key es1"
    using arg_cong [OF v, of "map fst"] by (simp add: comp_def)
  have t: "map (\<lambda>e. (group_key e, bd_Total_Hours e)) es2 =
           map (\<lambda>e. (group_key e, bd_Total_Hours e)) es1"
    using arg_cong [OF v, of "map (\<lambda>(k, t, x, p, d). (k, t))"] by (simp add: comp_def)
  have x: "map (\<lambda>e. (group_key e, bd_Extra_Hours e)) es2 =
           map (\<lambda>e. (group_key e, bd_Extra_Hours e)) es1"
    using arg_cong [OF v, of "map (\<lambda>(k, t, x, p, d). (k, x))"] by (simp add: comp_def)
  have p: "map (\<lambda>e. (group_key e, bd_Daily_Pay e)) es2 =
           map (\<lambda>e. (group_key e, bd_Daily_Pay e)) es1"
    using arg_cong [OF v, of "map (\<lambda>(k, t, x, p, d). (k, p))"] by (simp add: comp_def)
  show "map bd_Daily_Pay es2 = map bd_Daily_Pay es1"
    using arg_cong [OF v, of "map (\<lambda>(k, t, x, p, d). p)"] by (simp add: comp_def)
  show "map bd_Date es2 = map bd_Date es1"
    using arg_cong [OF v, of "map (\<lambda>(k, t, x, p, d). d)"] by (simp add: comp_def)
  have "agg_group es2 key = agg_group es1 key" for key
    by (simp add: agg_group_def Let_def map_filter_view [OF t] map_filter_view [OF x]
        map_filter_view [OF p])
  then show "map (agg_group es2) (group_keys es2) = map (agg_group es1) (group_keys es1)"
    by (simp add: group_keys_def k)
qed

lemma rerun_returns:
  assumes "process_rows hw hs (coerce_columns parse df) = Inr es1"
  shows "\<exists>es2. process_rows hw hs (coerce_columns parse (coerce_columns parse df)) = Inr es2"
proof -
  have "\<forall>r \<in> set df. hours_in_range r"
    using assms by (rule process_rows_coerced_hours)
  then have "\<forall>r \<in> set (coerce_columns parse df). hours_in_range r"
    by (simp only: coerced_hours)
  then show ?thesis
    by (rule process_rows_coerced)
qed

text \<open>
  C9 (as the code has it). \<open>calculate_salary\<close> is deterministic and keeps no hidden
  state: two calls on tables with the same rows, with the same salary, allowance and
  holidays, give the same result (the same output or the same exception) whatever else
  the two worlds hold, and a call never changes the shared default holidays. It is not
  pure, since it overwrites three columns of the caller's table; a second call on that
  same table still returns, with the same monthly totals, wage rates, daily pays and
  dates as the first.
\<close>

theorem calculate_salary_deterministic:
  "(frames w1 p1 = frames w2 p2 \<and> default_holidays w1 = default_holidays w2 \<longrightarrow>
      snd (calculate_salary parse w1 p1 basic_salary allowance holidays) =
      snd (calculate_salary parse w2 p2 basic_salary allowance holidays)) \<and>
   default_holidays (fst (calculate_salary parse w df basic_salary allowance holidays)) =
     default_holidays w \<and>
   (snd (calculate_salary parse w df basic_salary allowance holidays) = Inr out \<longrightarrow>
      (\<exists>out'.
         snd (calculate_salary parse
                (fst (calculate_salary parse w df basic_salary allowance holidays))
                df basic_salary allowance holidays) = Inr out' \<and>
         ret_monthly_totals out' = ret_monthly_totals out \<and>
         ret_hourly_wage out' = ret_hourly_wage out \<and>
         ret_daily_wage out' = ret_daily_wage out \<and>
         map bd_Daily_Pay (ret_breakdown_df out') = map bd_Daily_Pay (ret_breakdown_df out) \<and>
         map bd_Date (ret_breakdown_df out') = map bd_Date (ret_breakdown_df out)))"
proof (intro conjI impI)
  assume "frames w1 p1 = frames w2 p2 \<and> default_holidays w1 = default_holidays w2"
  then show "snd (calculate_salary parse w1 p1 basic_salary allowance holidays) =
      snd (calculate_salary parse w2 p2 basic_salary allowance holidays)"
    using calculate_salary_result_cong by blast
next
  show "default_holidays (fst (calculate_salary parse w df basic_salary allowance holidays)) =
     default_holidays w"
    by (simp add: calculate_salary_world)
next
  let ?w' = "fst (calculate_salary parse w df basic_salary allowance holidays)"
  let ?hs = "case holidays of None \<Rightarrow> default_holidays w | Some h \<Rightarrow> h"
  let ?hs' = "case holidays of None \<Rightarrow> default_holidays ?w' | Some h \<Rightarrow> h"
  assume r: "snd (calculate_salary parse w df basic_salary allowance holidays) = Inr out"
  from r obtain b a fixed es1 where
    b: "basic_salary = Some b" and a: "allowance = Some a"
    and f: "py_add (Some b) (Some a) = Inr fixed"
    and d: "daily_wage_of fixed = Inr ((num_val b + num_val a) * 12 / 365)"
    and t: "to_float fixed = Inr (num_val b + num_val a)"
    and es1: "process_rows ((num_val b + num_val a) * 12 / 365 / 8) ?hs
        (coerce_columns parse (frames w df)) = Inr es1"
    and ne: "es1 \<noteq> []"
    and out: "out = \<lparr> ret_breakdown_df = es1,
                ret_monthly_totals =
                  map (\<lambda>m. m\<lparr>mt_Fixed_Monthly_Pay := num_val b + num_val a,
                              mt_Final_Monthly_Pay :=
                                fadd (mt_Daily_Pay m) (Fin (num_val b + num_val a))\<rparr>)
                    (map (agg_group es1) (group_keys es1)),
                ret_hourly_wage = (num_val b + num_val a) * 12 / 365 / 8,
                ret_daily_wage = (num_val b + num_val a) * 12 / 365 \<rparr>"
    unfolding calculate_salary_Inr_iff by blast
  have fr: "frames ?w' df = coerce_columns parse (frames w df)"
    by (simp add: calculate_salary_world)
  have dh: "default_holidays ?w' = default_holidays w"
    by (simp add: calculate_salary_world)
  have hs: "?hs' = ?hs"
    unfolding dh ..
  from rerun_returns [OF es1] obtain es2 where
    es2: "process_rows ((num_val b + num_val a) * 12 / 365 / 8) ?hs
        (coerce_columns parse (coerce_columns parse (frames w df))) = Inr es2"
    by blast
  have l1: "length es1 = length (frames w df)"
    using process_rows_length [OF es1] by (simp add: length_coerce_columns)
  have l2: "length es2 = length (frames w df)"
    using process_rows_length [OF es2] by (simp add: length_coerce_columns)
  have ne2: "es2 \<noteq> []"
    using ne l1 l2 by auto
  define out' where "out' = \<lparr> ret_breakdown_df = es2,
                ret_monthly_totals =
                  map (\<lambda>m. m\<lparr>mt_Fixed_Monthly_Pay := num_val b + num_val a,
                              mt_Final_Monthly_Pay :=
                                fadd (mt_Daily_Pay m) (Fin (num_val b + num_val a))\<rparr>)
                    (map (agg_group es2) (group_keys es2)),
                ret_hourly_wage = (num_val b + num_val a) * 12 / 365 / 8,
                ret_daily_wage = (num_val b + num_val a) * 12 / 365 \<rparr>"
  have es2': "process_rows ((num_val b + num_val a) * 12 / 365 / 8) ?hs'
        (coerce_columns parse (frames ?w' df)) = Inr es2"
    unfolding hs fr by (rule es2)
  have 0: "snd (calculate_salary parse ?w' df basic_salary allowance holidays) = Inr out'"
    unfolding calculate_salary_Inr_iff [of parse ?w' df basic_salary allowance holidays out']
    using b a f d t es2' ne2 out'_def by blast
  note v = rerun_view [OF es1 es2]
  have 1: "ret_monthly_totals out' = ret_monthly_totals out"
    unfolding out out'_def returned.simps rerun_totals(1) [OF v] ..
  have 2: "ret_hourly_wage out' = ret_hourly_wage out"
    unfolding out out'_def returned.simps ..
  have 3: "ret_daily_wage out' = ret_daily_wage out"
    unfolding out out'_def returned.simps ..
  have 4: "map bd_Daily_Pay (ret_breakdown_df out') = map bd_Daily_Pay (ret_breakdown_df out)"
    unfolding out out'_def returned.simps by (rule rerun_totals(2) [OF v])
  have 5: "map bd_Date (ret_breakdown_df out') = map bd_Date (ret_breakdown_df out)"
    unfolding out out'_def returned.simps by (rule rerun_totals(3) [OF v])
  show "\<exists>out'.
         snd (calculate_salary parse ?w' df basic_salary allowance holidays) = Inr out' \<and>
         ret_monthly_totals out' = ret_monthly_totals out \<and>
         ret_hourly_wage out' = ret_hourly_wage out \<and>
         ret_daily_wage out' = ret_daily_wage out \<and>
         map bd_Daily_Pay (ret_breakdown_df out') = map bd_Daily_Pay (ret_breakdown_df out) \<and>
         map bd_Date (ret_breakdown_df out') = map bd_Date (ret_breakdown_df out)"
    by (rule exI [of _ out']) (intro conjI, rule 0, rule 1, rule 2, rule 3, rule 4, rule 5)
qed

theorem calculate_salary_deterministic_witness:
  "frames ex_world 0 =
     frames (ex_world\<lparr>frames := (frames ex_world)(7 := frames ex_world 0)\<rparr>) 7 \<and>
   default_holidays ex_world =
     default_holidays (ex_world\<lparr>frames := (frames ex_world)(7 := frames ex_world 0)\<rparr>) \<and>
   snd (calculate_salary ex_parse
          (ex_world\<lparr>frames := (frames ex_world)(7 := frames ex_world 0)\<rparr>) 7
          (Some (PyInt 36000)) (Some (PyInt 500)) None) = Inr ex_out \<and>
   default_holidays (fst (calculate_salary ex_parse ex_world 0 (Some (PyInt 36000)) (Some (PyInt 500)) None)) = [] \<and>
   snd (calculate_salary ex_parse ex_world 0 (Some (PyInt 36000)) (Some (PyInt 500)) None) = Inr ex_out \<and>
   (\<exists>out'.
      snd (calculate_salary ex_parse
             (fst (calculate_salary ex_parse ex_world 0 (Some (PyInt 36000)) (Some (PyInt 500)) None))
             0 (Some (PyInt 36000)) (Some (PyInt 500)) None) = Inr out' \<and>
      ret_monthly_totals out' = ret_monthly_totals ex_out \<and>
      ret_hourly_wage out' = 150 \<and>
      ret_daily_wage out' = 1200 \<and>
      map bd_Daily_Pay (ret_breakdown_df out') = [Fin 2025, Fin 1200, Fin 1125])"
proof -
  let ?w2 = "ex_world\<lparr>frames := (frames ex_world)(7 := frames ex_world 0)\<rparr>"
  note t = calculate_salary_deterministic [where ?w1.0 = ex_world and ?p1.0 = 0
      and ?w2.0 = ?w2 and ?p2.0 = 7 and parse = ex_parse and basic_salary = "Some (PyInt 36000)"
      and allowance = "Some (PyInt 500)" and holidays = None and w = ex_world and df = 0
      and out = ex_out]
  have h1: "frames ex_world 0 = frames ?w2 7 \<and> default_holidays ex_world = default_holidays ?w2"
    by simp
  have c1: "snd (calculate_salary ex_parse ?w2 7 (Some (PyInt 36000)) (Some (PyInt 500)) None) = Inr ex_out"
    using mp [OF conjunct1 [OF t] h1] by (simp only: ex_call)
  have c2: "default_holidays (fst (calculate_salary ex_parse ex_world 0 (Some (PyInt 36000)) (Some (PyInt 500)) None)) = []"
    using conjunct1 [OF conjunct2 [OF t]] by (simp add: ex_world_def)
  note c3 = mp [OF conjunct2 [OF conjunct2 [OF t]] ex_call]
  have v: "ret_hourly_wage ex_out = 150" "ret_daily_wage ex_out = 1200"
    "map bd_Daily_Pay (ret_breakdown_df ex_out) = [Fin 2025, Fin 1200, Fin 1125]"
    by (simp_all add: ex_out_def)
  from c3 obtain out' where
    o: "snd (calculate_salary ex_parse
             (fst (calculate_salary ex_parse ex_world 0 (Some (PyInt 36000)) (Some (PyInt 500)) None))
             0 (Some (PyInt 36000)) (Some (PyInt 500)) None) = Inr out'"
      "ret_monthly_totals out' = ret_monthly_totals ex_out"
      "ret_hourly_wage out' = ret_hourly_wage ex_out"
      "ret_daily_wage out' = ret_daily_wage ex_out"
      "map bd_Daily_Pay (ret_breakdown_df out') = map bd_Daily_Pay (ret_breakdown_df ex_out)"
    by blast
  have c4: "\<exists>out'.
      snd (calculate_salary ex_parse
             (fst (calculate_salary ex_parse ex_world 0 (Some (PyInt 36000)) (Some (PyInt 500)) None))
             0 (Some (PyInt 36000)) (Some (PyInt 500)) None) = Inr out' \<and>
      ret_monthly_totals out' = ret_monthly_totals ex_out \<and>
      ret_hourly_wage out' = 150 \<and>
      ret_daily_wage out' = 1200 \<and>
      map bd_Daily_Pay (ret_breakdown_df out') = [Fin 2025, Fin 1200, Fin 1125]"
    using o unfolding v by (intro exI [of _ out'] conjI)
  from h1 c1 c2 c4 show ?thesis
    by (intro conjI) (simp_all only: ex_call)
qed

text \<open>
  C9 as stated does not hold: the function is not pure. After a call the caller's table
  is not the table that was passed in, and a second call on the same table, with the
  same salary, allowance and holidays, does not give the result of the first: the
  \<open>In time\<close> cell \<open>09:00\<close> of the first row reaches the first call as a timestamp and
  the second call as a time of day.
\<close>

theorem calculate_salary_rerun_counterexample:
  "In_time (frames ex_world 0 ! 0) = PyTimestamp 738890 32400 \<and>
   In_time (frames (fst (calculate_salary ex_parse ex_world 0 (Some (PyInt 36000)) (Some (PyInt 500)) None)) 0 ! 0) =
     PyTime 32400 \<and>
   frames (fst (calculate_salary ex_parse ex_world 0 (Some (PyInt 36000)) (Some (PyInt 500)) None)) 0 \<noteq>
     frames ex_world 0 \<and>
   snd (calculate_salary ex_parse
          (fst (calculate_salary ex_parse ex_world 0 (Some (PyInt 36000)) (Some (PyInt 500)) None))
          0 (Some (PyInt 36000)) (Some (PyInt 500)) None) \<noteq>
   snd (calculate_salary ex_parse ex_world 0 (Some (PyInt 36000)) (Some (PyInt 500)) None)"
proof -
  let ?w' = "fst (calculate_salary ex_parse ex_world 0 (Some (PyInt 36000)) (Some (PyInt 500)) None)"
  have a: "In_time (frames ex_world 0 ! 0) = PyTimestamp 738890 32400"
    by (simp add: ex_frames_0 ex_row_fri_def)
  have b: "In_time (frames ?w' 0 ! 0) = PyTime 32400"
    by (simp add: calculate_salary_world ex_frames_0 coerce_columns_map ex_row_fri_def
        to_datetime_def)
  have c: "frames ?w' 0 \<noteq> frames ex_world 0"
    using a b by auto
  have d: "snd (calculate_salary ex_parse ?w' 0 (Some (PyInt 36000)) (Some (PyInt 500)) None) \<noteq> Inr ex_out"
    by (simp add: calculate_salary_world eval_defs ex_defs ex_out_def)
  from a b c d show ?thesis
    by (simp only: ex_call simp_thms)
qed

end
